theory Spec2Isabelle
  imports Complex_Main "HOL-Library.AList"
begin

section \<open>Python errors\<close>

text \<open>
  Every exception the modelled code can raise is a value; a computation returns
  \<open>py_error + 'a\<close> with \<open>Inl\<close> the exception.
\<close>

datatype py_error =
    AssertionError
  | TypeError
  | RuntimeError
  | IndexError
  | KeyError
  | ZeroDivisionError
  | UnboundLocalError

definition bindE :: "py_error + 'a \<Rightarrow> ('a \<Rightarrow> py_error + 'b) \<Rightarrow> py_error + 'b" where
  "bindE r f = (case r of Inl e \<Rightarrow> Inl e | Inr v \<Rightarrow> f v)"

section \<open>Tensors\<close>

text \<open>
  A torch tensor of rank 0 is \<open>Sc a\<close>; a tensor of rank \<open>k + 1\<close> is \<open>Tn s ts\<close>, the list
  of its slices along dimension 0, each of shape \<open>s\<close>. The slice shape is stored so that
  a dimension of size 0 keeps its trailing dimensions, as in torch. The element type is
  left open: the float operations of the source are the operations of \<open>'a\<close>.
\<close>

datatype 'a tensor = Sc 'a | Tn "nat list" "'a tensor list"

fun shape :: "'a tensor \<Rightarrow> nat list" where
  "shape (Sc a) = []"
| "shape (Tn s ts) = length ts # s"

fun wf_tensor :: "'a tensor \<Rightarrow> bool" where
  "wf_tensor (Sc a) = True"
| "wf_tensor (Tn s ts) = (\<forall>t \<in> set ts. wf_tensor t \<and> shape t = s)"

text \<open>\<open>torch.broadcast_shapes\<close>, on the shapes read from the last dimension backwards.\<close>

fun bdims :: "nat list \<Rightarrow> nat list \<Rightarrow> nat list option" where
  "bdims [] ys = Some ys"
| "bdims (x # xs) [] = Some (x # xs)"
| "bdims (x # xs) (y # ys) =
     (if x = y \<or> y = 1 then map_option ((#) x) (bdims xs ys)
      else if x = 1 then map_option ((#) y) (bdims xs ys)
      else None)"

definition broadcast_shapes :: "nat list \<Rightarrow> nat list \<Rightarrow> nat list option" where
  "broadcast_shapes s1 s2 = map_option rev (bdims (rev s1) (rev s2))"

text \<open>
  \<open>expand s t\<close> is \<open>t.expand(s)\<close> for a shape \<open>s\<close> that \<open>t\<close> broadcasts to: missing
  leading dimensions are added, dimensions of size 1 are repeated.
\<close>

fun expand :: "nat list \<Rightarrow> 'a tensor \<Rightarrow> 'a tensor" where
  "expand [] t = t"
| "expand (n # s) t =
     (if length (shape t) < Suc (length s) then Tn s (replicate n (expand s t))
      else (case t of
              Sc a \<Rightarrow> Sc a
            | Tn s' ts \<Rightarrow>
                Tn s (case ts of
                        [u] \<Rightarrow> replicate n (expand s u)
                      | _ \<Rightarrow> map (expand s) ts)))"

text \<open>Elementwise combination of two tensors of one shape.\<close>

function zipT :: "('a \<Rightarrow> 'b \<Rightarrow> 'c) \<Rightarrow> 'a tensor \<Rightarrow> 'b tensor \<Rightarrow> 'c tensor" where
  "zipT f (Sc a) (Sc b) = Sc (f a b)"
| "zipT f (Tn s xs) (Tn s' ys) = Tn s (map (\<lambda>(x, y). zipT f x y) (zip xs ys))"
| "zipT f (Sc a) (Tn s ys) = Tn s (map (\<lambda>y. zipT f (Sc a) y) ys)"
| "zipT f (Tn s xs) (Sc b) = Tn s (map (\<lambda>x. zipT f x (Sc b)) xs)"
  by pat_completeness auto
termination
proof (relation "measure (\<lambda>(f, a, b). size a + size b)")
  show "wf (measure (\<lambda>(f, a, b). size a + size b))" by simp
next
  fix f :: "'a \<Rightarrow> 'b \<Rightarrow> 'c" and s s' :: "nat list"
    and xs :: "'a tensor list" and ys :: "'b tensor list" and z x y
  assume "z \<in> set (zip xs ys)" and "(x, y) = z"
  then have "x \<in> set xs" and "y \<in> set ys"
    by (auto dest: set_zip_leftD set_zip_rightD)
  then have "size x < Suc (size_list size xs)" and "size y < Suc (size_list size ys)"
    by (auto simp: less_Suc_eq_le size_list_estimation')
  then show "((f, x, y), (f, Tn s xs, Tn s' ys)) \<in> measure (\<lambda>(f, a, b). size a + size b)"
    by simp
next
  fix f :: "'a \<Rightarrow> 'b \<Rightarrow> 'c" and a :: 'a and s :: "nat list"
    and ys :: "'b tensor list" and y
  assume "y \<in> set ys"
  then have "size y < Suc (size_list size ys)"
    by (auto simp: less_Suc_eq_le size_list_estimation')
  then show "((f, Sc a, y), (f, Sc a, Tn s ys)) \<in> measure (\<lambda>(f, a, b). size a + size b)"
    by simp
next
  fix f :: "'a \<Rightarrow> 'b \<Rightarrow> 'c" and s :: "nat list"
    and xs :: "'a tensor list" and b :: 'b and x
  assume "x \<in> set xs"
  then have "size x < Suc (size_list size xs)"
    by (auto simp: less_Suc_eq_le size_list_estimation')
  then show "((f, x, Sc b), (f, Tn s xs, Sc b)) \<in> measure (\<lambda>(f, a, b). size a + size b)"
    by simp
qed

text \<open>
  A torch binary operator on two tensors: both operands are broadcast to the common
  shape, then combined elementwise; shapes that do not broadcast raise RuntimeError.
\<close>

definition binop :: "('a \<Rightarrow> 'b \<Rightarrow> 'c) \<Rightarrow> 'a tensor \<Rightarrow> 'b tensor \<Rightarrow> py_error + 'c tensor" where
  "binop f a b =
     (case broadcast_shapes (shape a) (shape b) of
        None \<Rightarrow> Inl RuntimeError
      | Some s \<Rightarrow> Inr (zipT f (expand s a) (expand s b)))"

text \<open>A Python value passed where the source accepts a number or a tensor.\<close>

datatype 'a pyval = Num 'a | Ten "'a tensor"

section \<open>The probability path of \<open>FM\<close>\<close>

text \<open>
  \<open>FM.compute_conditional_flow\<close>: \<open>del t, xt; return x1 - x0\<close>.
\<close>

definition compute_conditional_flow ::
  "'a::minus tensor \<Rightarrow> 'a tensor \<Rightarrow> 'a pyval \<Rightarrow> 'a tensor \<Rightarrow> py_error + 'a tensor" where
  "compute_conditional_flow x0 x1 t xt = binop (-) x1 x0"

text \<open>The elements of a tensor in row-major order.\<close>

fun flatten :: "'a tensor \<Rightarrow> 'a list" where
  "flatten (Sc a) = [a]"
| "flatten (Tn s ts) = concat (map flatten ts)"

text \<open>\<open>wrap k a\<close> is the tensor of shape \<open>(1, ..., 1)\<close> (\<open>k\<close> ones) holding \<open>a\<close>.\<close>

fun wrap :: "nat \<Rightarrow> 'a \<Rightarrow> 'a tensor" where
  "wrap 0 a = Sc a"
| "wrap (Suc k) a = Tn (replicate k 1) [wrap k a]"

text \<open>
  Modelled from the spec: \<open>pad_t_like_x\<close> of \<open>celldreamer.models.base.utils\<close> is
  imported by \<open>fm.py\<close> and is not among the sources. The spec says of it: "t broadcast
  to match tensor rank" and "batch dim aligned, remaining dims treated as
  singleton-broadcast": a time tensor of \<open>B\<close> entries is reshaped to
  \<open>(B, 1, ..., 1)\<close>, of the rank of \<open>x\<close>. The standard deviation of the path is the
  plain number \<open>sigma\<close> ("std(t) = sigma, constant scale"), which multiplies the noise
  as it is: a number is returned unchanged.
\<close>

definition pad_t_like_x :: "'a pyval \<Rightarrow> 'b tensor \<Rightarrow> 'a pyval" where
  "pad_t_like_x t x =
     (case t of
        Num a \<Rightarrow> Num a
      | Ten tt \<Rightarrow>
          (let k = length (shape x) - 1
           in Ten (Tn (replicate k 1) (map (wrap k) (flatten tt)))))"

text \<open>
  A binary operator with a number or a tensor on the left and a tensor on the right; a
  Python number acts on every element.
\<close>

definition val_op :: "('a \<Rightarrow> 'b \<Rightarrow> 'c) \<Rightarrow> 'a pyval \<Rightarrow> 'b tensor \<Rightarrow> py_error + 'c tensor" where
  "val_op f v x = (case v of Num a \<Rightarrow> Inr (map_tensor (f a) x) | Ten t \<Rightarrow> binop f t x)"

text \<open>\<open>c - v\<close> for a Python number \<open>c\<close>.\<close>

definition num_minus :: "'a::minus \<Rightarrow> 'a pyval \<Rightarrow> 'a pyval" where
  "num_minus c v = (case v of Num a \<Rightarrow> Num (c - a) | Ten t \<Rightarrow> Ten (map_tensor (\<lambda>a. c - a) t))"

text \<open>
  \<open>FM.compute_mu_t\<close>: \<open>t = pad_t_like_x(t, x0); mu_t = t * x1 + (1 - t) * x0\<close>.
\<close>

definition compute_mu_t ::
  "'a::{one,plus,minus,times} tensor \<Rightarrow> 'a tensor \<Rightarrow> 'a pyval \<Rightarrow> py_error + 'a tensor" where
  "compute_mu_t x0 x1 t =
     (let t = pad_t_like_x t x0
      in bindE (val_op (*) t x1) (\<lambda>a.
         bindE (val_op (*) (num_minus 1 t) x0) (\<lambda>b.
         binop (+) a b)))"

text \<open>The constant tensor of a shape (\<open>torch.full\<close>).\<close>

fun full :: "nat list \<Rightarrow> 'a \<Rightarrow> 'a tensor" where
  "full [] a = Sc a"
| "full (n # s) a = Tn s (replicate n (full s a))"

section \<open>The model object\<close>

text \<open>
  The hyperparameters \<open>FM.__init__\<close> stores on \<open>self\<close>. A float is the real number it
  denotes; where rounding decides the result (time sampling) it is written out.
\<close>

record FM =
  in_dim :: nat
  encoder_type :: string
  learning_rate :: real
  weight_decay :: real
  antithetic_time_sampling :: bool
  pretrain_encoder :: bool
  pretraining_encoder_epochs :: int
  sigma :: real
  covariate_specific_theta :: bool
  conditioning_covariate :: string

text \<open>\<open>FM.compute_sigma_t\<close>: \<open>del t; return self.sigma\<close>.\<close>

definition compute_sigma_t :: "FM \<Rightarrow> real pyval \<Rightarrow> real pyval" where
  "compute_sigma_t self t = Num (sigma self)"

text \<open>
  \<open>FM.sample_xt\<close>: \<open>mu_t = self.compute_mu_t(x0, x1, t)\<close>,
  \<open>sigma_t = pad_t_like_x(self.compute_sigma_t(t), x0)\<close>,
  \<open>return mu_t + sigma_t * epsilon\<close>.
\<close>

definition sample_xt ::
  "FM \<Rightarrow> real tensor \<Rightarrow> real tensor \<Rightarrow> real pyval \<Rightarrow> real tensor \<Rightarrow> py_error + real tensor" where
  "sample_xt self x0 x1 t epsilon =
     bindE (compute_mu_t x0 x1 t) (\<lambda>mu_t.
       let sigma_t = compute_sigma_t self t;
           sigma_t = pad_t_like_x sigma_t x0
       in bindE (val_op (*) sigma_t epsilon) (\<lambda>noise.
          binop (+) mu_t noise))"

text \<open>\<open>torch.zeros_like\<close>.\<close>

definition zeros_like :: "'a tensor \<Rightarrow> 'b::zero tensor" where
  "zeros_like x = map_tensor (\<lambda>a. 0) x"

section \<open>Collaborators and random sources\<close>

text \<open>
  What \<open>FM\<close> calls and does not define: the optimal-transport sampler
  (\<open>OTPlanSampler.sample_plan\<close>, imported from \<open>celldreamer.models.fm.ot_sampler\<close>) and
  the random number generators of torch and numpy. Each is a function handed to the
  model; a draw is the value of the function at its arguments.
\<close>

record collab =
  sample_plan :: "real tensor \<Rightarrow> real tensor \<Rightarrow> real tensor \<times> real tensor"
  randn_like :: "real tensor \<Rightarrow> real tensor"
  rand :: "nat \<Rightarrow> real tensor"
  uniform :: "real \<Rightarrow> real \<Rightarrow> real"

text \<open>\<open>len(t)\<close> of a tensor: a tensor of rank 0 has no length.\<close>

definition len_tensor :: "'a tensor \<Rightarrow> py_error + nat" where
  "len_tensor t = (case t of Sc a \<Rightarrow> Inl TypeError | Tn s ts \<Rightarrow> Inr (length ts))"

text \<open>\<open>x.shape[0]\<close>: indexing the empty shape of a rank-0 tensor raises IndexError.\<close>

definition shape0 :: "'a tensor \<Rightarrow> py_error + nat" where
  "shape0 x = (case shape x of [] \<Rightarrow> Inl IndexError | n # s \<Rightarrow> Inr n)"

text \<open>\<open>FM.sample_noise_like\<close>: \<open>return torch.randn_like(x)\<close>.\<close>

definition sample_noise_like :: "collab \<Rightarrow> real tensor \<Rightarrow> real tensor" where
  "sample_noise_like c x = randn_like c x"

text \<open>
  \<open>FM.sample_location_and_conditional_flow\<close>: the batches are resampled from the
  coupling, \<open>t\<close> is drawn when it is \<open>None\<close>, then
  \<open>assert len(t) == x0.shape[0]\<close>, then the noise, \<open>xt\<close> and \<open>ut\<close>.
\<close>

definition sample_location_and_conditional_flow ::
  "collab \<Rightarrow> FM \<Rightarrow> real tensor \<Rightarrow> real tensor \<Rightarrow> real tensor option
     \<Rightarrow> py_error + (real tensor \<times> real tensor \<times> real tensor)" where
  "sample_location_and_conditional_flow c self x0 x1 t =
     (case sample_plan c x0 x1 of (x0, x1) \<Rightarrow>
        bindE (case t of
                 None \<Rightarrow> bindE (shape0 x0) (\<lambda>n. Inr (rand c n))
               | Some t \<Rightarrow> Inr t) (\<lambda>t.
        bindE (len_tensor t) (\<lambda>n.
        bindE (shape0 x0) (\<lambda>b.
        if n \<noteq> b then Inl AssertionError
        else
          let eps = sample_noise_like c x0
          in bindE (sample_xt self x0 x1 (Ten t) eps) (\<lambda>xt.
             bindE (compute_conditional_flow x0 x1 (Ten t) xt) (\<lambda>ut.
             Inr (t, xt, ut)))))))"

section \<open>Time sampling\<close>

text \<open>
  Python floats and the scalars of torch are IEEE 754 doubles; \<open>torch.arange\<close> of float
  arguments stores single precision. A finite float is the real number it denotes, and
  each operation rounds its exact result to the nearest float, ties to the even
  significand. The model covers results in the normal range of the format (no overflow,
  no subnormal numbers), which is where the times of \<open>_sample_times\<close> lie.
\<close>

definition round_half_even :: "real \<Rightarrow> int" where
  "round_half_even x =
     (let f = \<lfloor>x\<rfloor>; d = x - of_int f
      in if d < 1 / 2 then f
         else if 1 / 2 < d then f + 1
         else if even f then f else f + 1)"

text \<open>
  The binary exponent \<open>\<lfloor>log\<^sub>2 x\<rfloor>\<close> of a positive \<open>x\<close>, found by doubling or halving
  \<open>x\<close> into \<open>[1, 2)\<close>; the fuel bounds the search and exceeds the exponent range of a
  double.
\<close>

fun ilog2 :: "nat \<Rightarrow> real \<Rightarrow> int" where
  "ilog2 fuel x =
     (if fuel = 0 then 0
      else if x < 1 then ilog2 (fuel - 1) (2 * x) - 1
      else if 2 \<le> x then ilog2 (fuel - 1) (x / 2) + 1
      else 0)"

declare ilog2.simps [simp del]

text \<open>Rounding to a significand of \<open>p\<close> bits: 53 for a double, 24 for single precision.\<close>

definition round_to :: "nat \<Rightarrow> real \<Rightarrow> real" where
  "round_to p x =
     (if x = 0 then 0
      else
        let e = ilog2 2200 \<bar>x\<bar> - int p + 1
        in sgn x * of_int (round_half_even (\<bar>x\<bar> / 2 powi e)) * 2 powi e)"

definition fl64 :: "real \<Rightarrow> real" where
  "fl64 x = round_to 53 x"

definition fl32 :: "real \<Rightarrow> real" where
  "fl32 x = round_to 24 x"

text \<open>Python's true division of floats: division by zero raises, the quotient is rounded.\<close>

definition py_div :: "real \<Rightarrow> real \<Rightarrow> py_error + real" where
  "py_div a b = (if b = 0 then Inl ZeroDivisionError else Inr (fl64 (a / b)))"

text \<open>
  \<open>torch.arange(start, end, step)\<close> of float arguments. The number of entries is
  \<open>ceil((end - start) / step)\<close> computed in double precision; entry \<open>i\<close> is
  \<open>start + step * i\<close> computed in double precision and stored in single precision. A zero
  step, or bounds on the wrong side of the step, raise RuntimeError.
\<close>

definition arange :: "real \<Rightarrow> real \<Rightarrow> real \<Rightarrow> py_error + real tensor" where
  "arange start end step =
     (if step = 0 then Inl RuntimeError
      else if (0 < step \<and> start \<le> end) \<or> (step < 0 \<and> end \<le> start) then
        Inr (Tn [] (map (\<lambda>i. Sc (fl32 (fl64 (start + fl64 (step * real i)))))
                      [0..<nat \<lceil>fl64 (fl64 (end - start) / step)\<rceil>]))
      else Inl RuntimeError)"

text \<open>
  \<open>FM._sample_times\<close>: with antithetic sampling,
  \<open>t0 = np.random.uniform(0, 1 / batch_size)\<close> and
  \<open>times = torch.arange(t0, 1.0, 1.0 / batch_size)\<close>; otherwise
  \<open>times = torch.rand(batch_size)\<close>.
\<close>

definition sample_times :: "collab \<Rightarrow> FM \<Rightarrow> nat \<Rightarrow> py_error + real tensor" where
  "sample_times c self batch_size =
     (if antithetic_time_sampling self then
        bindE (py_div 1 (real batch_size)) (\<lambda>high.
        let t0 = uniform c 0 high
        in bindE (py_div 1 (real batch_size)) (\<lambda>step.
           arange t0 1 step))
      else Inr (rand c batch_size))"

section \<open>The data loader\<close>

text \<open>A list comprehension whose body may raise: the first exception ends it.\<close>

fun mapE :: "('a \<Rightarrow> py_error + 'b) \<Rightarrow> 'a list \<Rightarrow> py_error + 'b list" where
  "mapE f [] = Inr []"
| "mapE f (x # xs) = bindE (f x) (\<lambda>y. bindE (mapE f xs) (\<lambda>ys. Inr (y # ys)))"

text \<open>\<open>np.unique\<close>: the distinct values, sorted.\<close>

definition np_unique :: "'a::linorder list \<Rightarrow> 'a list" where
  "np_unique xs = sort (remdups xs)"

text \<open>\<open>dict(pairs)\<close>: a later pair with a key already present replaces its value.\<close>

definition py_dict :: "('k \<times> 'v) list \<Rightarrow> ('k \<times> 'v) list" where
  "py_dict kvs = fold (\<lambda>(k, v). AList.update k v) kvs []"

text \<open>\<open>d[k]\<close>: a missing key raises KeyError.\<close>

definition dict_get :: "('k \<times> 'v) list \<Rightarrow> 'k \<Rightarrow> py_error + 'v" where
  "dict_get d k = (case map_of d k of None \<Rightarrow> Inl KeyError | Some v \<Rightarrow> Inr v)"

text \<open>\<open>xs[i]\<close> for an integer \<open>i\<close>: negative indices count from the end.\<close>

definition py_index :: "'a list \<Rightarrow> int \<Rightarrow> py_error + 'a" where
  "py_index xs i =
     (let n = int (length xs); j = (if i < 0 then n + i else i)
      in if 0 \<le> j \<and> j < n then Inr (xs ! nat j) else Inl IndexError)"

text \<open>
  The fields of \<open>RNAseqLoader\<close> the covariate tables and \<open>__getitem__\<close> use. \<open>X_data\<close>
  is \<open>self.X\<close>. The size-factor statistics are computed by
  \<open>compute_size_factor_lognorm\<close> of \<open>cfgen.data.utils\<close>, which is not among the sources,
  and are left out.
\<close>

record 'a RNAseqLoader =
  normalization_type :: string
  is_binarized :: bool
  covariate_keys :: "string list"
  modality_list :: "string list"
  X_data :: "(string \<times> real tensor) list"
  id2cov :: "(string \<times> ('a \<times> nat) list) list"
  Y_cov :: "(string \<times> nat list) list"

text \<open>
  The loop \<open>for cov_name in covariate_keys\<close> of \<open>RNAseqLoader.__init__\<close>:
  \<open>cov = np.array(adata_obs[cov_name])\<close>, \<open>unique_cov = np.unique(cov)\<close>,
  \<open>zip_cov_cat = dict(zip(unique_cov, np.arange(len(unique_cov))))\<close>,
  \<open>self.id2cov[cov_name] = zip_cov_cat\<close>,
  \<open>self.Y_cov[cov_name] = torch.tensor([zip_cov_cat[c] for c in cov])\<close>.
\<close>

fun cov_loop ::
  "(string \<times> 'a::linorder list) list \<Rightarrow> string list
     \<Rightarrow> (string \<times> ('a \<times> nat) list) list \<times> (string \<times> nat list) list
     \<Rightarrow> py_error + ((string \<times> ('a \<times> nat) list) list \<times> (string \<times> nat list) list)" where
  "cov_loop adata_obs [] st = Inr st"
| "cov_loop adata_obs (cov_name # rest) (i2c, yc) =
     bindE (dict_get adata_obs cov_name) (\<lambda>cov.
       let unique_cov = np_unique cov;
           zip_cov_cat = py_dict (zip unique_cov [0..<length unique_cov])
       in bindE (mapE (dict_get zip_cov_cat) cov) (\<lambda>ys.
          cov_loop adata_obs rest
            (AList.update cov_name zip_cov_cat i2c, AList.update cov_name ys yc)))"

text \<open>
  \<open>RNAseqLoader.__init__\<close>, from the tensors and the \<open>obs\<close> table of the data after
  subsampling. The default \<open>covariate_keys = None\<close> cannot be iterated.
\<close>

definition RNAseqLoader_init ::
  "string \<Rightarrow> bool \<Rightarrow> string list option \<Rightarrow> string list \<Rightarrow> (string \<times> real tensor) list
     \<Rightarrow> (string \<times> 'a::linorder list) list \<Rightarrow> py_error + 'a RNAseqLoader" where
  "RNAseqLoader_init norm_type binarized keys mods xs adata_obs =
     (case keys of
        None \<Rightarrow> Inl TypeError
      | Some ks \<Rightarrow>
          bindE (cov_loop adata_obs ks ([], [])) (\<lambda>(i2c, yc).
            Inr \<lparr>normalization_type = norm_type, is_binarized = binarized,
                 covariate_keys = ks, modality_list = mods, X_data = xs,
                 id2cov = i2c, Y_cov = yc\<rparr>))"

text \<open>The dictionary \<open>dict(X=X, X_norm=X_norm, y=y)\<close> that \<open>__getitem__\<close> returns.\<close>

record item =
  item_X :: "(string \<times> real tensor) list"
  item_X_norm :: "(string \<times> real tensor) list"
  item_y :: "(string \<times> nat) list"

text \<open>\<open>t[i]\<close>: slice \<open>i\<close> of a tensor along dimension 0.\<close>

definition index_tensor :: "'a tensor \<Rightarrow> int \<Rightarrow> py_error + 'a tensor" where
  "index_tensor t i = (case t of Sc a \<Rightarrow> Inl IndexError | Tn s ts \<Rightarrow> py_index ts i)"

text \<open>
  The loop \<open>for mod in self.modality_list\<close> of \<open>__getitem__\<close>. \<open>normalize_expression\<close>
  of \<open>cfgen.data.utils\<close> is not among the sources and is a parameter.
\<close>

fun mod_loop ::
  "(real tensor \<Rightarrow> real \<Rightarrow> string \<Rightarrow> real tensor) \<Rightarrow> 'a RNAseqLoader \<Rightarrow> int \<Rightarrow> string list
     \<Rightarrow> (string \<times> real tensor) list \<times> (string \<times> real tensor) list
     \<Rightarrow> py_error + ((string \<times> real tensor) list \<times> (string \<times> real tensor) list)" where
  "mod_loop normalize_expression self i [] st = Inr st"
| "mod_loop normalize_expression self i (m # rest) (xd, xn) =
     bindE (dict_get (X_data self) m) (\<lambda>xm.
     bindE (index_tensor xm i) (\<lambda>row.
       let xd = AList.update m row xd;
           xn = (if m = ''rna'' then
                   AList.update m
                     (normalize_expression row (sum_list (flatten row)) (normalization_type self)) xn
                 else if m = ''atac'' \<and> \<not> is_binarized self then
                   AList.update m
                     (normalize_expression row (sum_list (flatten row)) (normalization_type self)) xn
                 else AList.update m row xn)
       in mod_loop normalize_expression self i rest (xd, xn)))"

text \<open>\<open>RNAseqLoader.__getitem__\<close>.\<close>

definition getitem ::
  "(real tensor \<Rightarrow> real \<Rightarrow> string \<Rightarrow> real tensor) \<Rightarrow> 'a RNAseqLoader \<Rightarrow> int \<Rightarrow> py_error + item" where
  "getitem normalize_expression self i =
     bindE (mapE (\<lambda>(cov, ys). bindE (py_index ys i) (\<lambda>v. Inr (cov, v))) (Y_cov self)) (\<lambda>y.
     bindE (mod_loop normalize_expression self i (modality_list self) ([], [])) (\<lambda>(xd, xn).
       Inr \<lparr>item_X = xd, item_X_norm = xn, item_y = y\<rparr>))"

text \<open>
  The tables the loop is shown to build: the sorted distinct values of a column numbered
  from 0, and the number of each cell's value.
\<close>

definition cat_dict :: "'a::linorder list \<Rightarrow> ('a \<times> nat) list" where
  "cat_dict cov = zip (sort (remdups cov)) [0..<card (set cov)]"

definition cat_ids :: "'a::linorder list \<Rightarrow> nat list" where
  "cat_ids cov = map (\<lambda>c. the (map_of (cat_dict cov) c)) cov"

definition cov_tables_ok ::
  "(string \<times> 'a::linorder list) list \<Rightarrow> (string \<times> ('a \<times> nat) list) list
     \<Rightarrow> (string \<times> nat list) list \<Rightarrow> bool" where
  "cov_tables_ok adata_obs i2c yc \<longleftrightarrow>
     distinct (map fst yc)
   \<and> (\<forall>k ys. map_of yc k = Some ys \<longrightarrow>
         (\<exists>cov. map_of adata_obs k = Some cov \<and> map_of i2c k = Some (cat_dict cov)
              \<and> ys = cat_ids cov))
   \<and> (\<forall>k. map_of i2c k \<noteq> None \<longrightarrow> map_of yc k \<noteq> None)"

section \<open>The training step\<close>

text \<open>
  The modules and distributions \<open>FM\<close> is built from and does not define: the denoising
  network, the covariate embeddings, the scaler, the encoder and decoder networks
  (\<open>MLP\<close>), \<open>CellDecoder\<close>, the parameter \<open>theta\<close>, and the negative binomial of
  \<open>scvi\<close>, \<open>nb_log_prob mu theta x\<close> being \<open>NegativeBinomial(mu, theta).log_prob(x)\<close>.
\<close>

record nets =
  denoising_model :: "real tensor \<Rightarrow> real tensor \<Rightarrow> real tensor \<Rightarrow> real tensor \<Rightarrow> real tensor"
  feature_embeddings :: "(string \<times> (nat list \<Rightarrow> real tensor)) list"
  scaler_scale :: "real tensor \<Rightarrow> bool \<Rightarrow> real tensor"
  x0_from_x :: "real tensor \<Rightarrow> real tensor"
  x_from_x0 :: "real tensor \<Rightarrow> real tensor"
  cell_decoder :: "real tensor \<Rightarrow> real tensor \<Rightarrow> real tensor"
  theta :: "real tensor"
  nb_log_prob :: "real tensor \<Rightarrow> real tensor \<Rightarrow> real tensor \<Rightarrow> real tensor"

text \<open>A batch: \<open>batch["X"]\<close>, \<open>batch["X_norm"]\<close>, \<open>batch["y"]\<close>.\<close>

record batch =
  batch_X :: "real tensor"
  batch_X_norm :: "real tensor"
  batch_y :: "(string \<times> nat list) list"

text \<open>
  What a step reads and changes besides the loss: the trainer's epoch, the
  \<open>requires_grad\<close> flag of each parameter of \<open>x0_from_x\<close> and of \<open>x_from_x0\<close> (no flags
  where the module does not exist), and \<open>lr\<close> and \<open>weight_decay\<close> of
  \<open>self.optimizers().param_groups[0]\<close>.
\<close>

record fm_state =
  current_epoch :: int
  x0_from_x_requires_grad :: "bool list"
  x_from_x0_requires_grad :: "bool list"
  lr :: real
  opt_weight_decay :: real

text \<open>The elementwise sum of tensors of shape \<open>s\<close>.\<close>

definition sum_tensors :: "nat list \<Rightarrow> real tensor list \<Rightarrow> real tensor" where
  "sum_tensors s ts = fold (\<lambda>t acc. zipT (+) acc t) ts (full s 0)"

text \<open>\<open>x.sum(1)\<close>; a tensor of rank below 2 has no dimension 1.\<close>

definition sum_dim1 :: "real tensor \<Rightarrow> py_error + real tensor" where
  "sum_dim1 x =
     (case x of
        Sc a \<Rightarrow> Inl IndexError
      | Tn s rows \<Rightarrow>
          (case s of
             [] \<Rightarrow> Inl IndexError
           | g # rest \<Rightarrow>
               Inr (Tn rest (map (\<lambda>row. case row of Sc a \<Rightarrow> Sc a
                                          | Tn s' cs \<Rightarrow> sum_tensors rest cs) rows))))"

text \<open>\<open>x.unsqueeze(1)\<close>.\<close>

definition unsqueeze1 :: "'a tensor \<Rightarrow> py_error + 'a tensor" where
  "unsqueeze1 x =
     (case x of
        Sc a \<Rightarrow> Inl IndexError
      | Tn s rows \<Rightarrow> Inr (Tn (1 # s) (map (\<lambda>r. Tn s [r]) rows)))"

text \<open>\<open>t.mean()\<close> over all elements (of an empty tensor torch gives nan, here 0).\<close>

definition mean :: "real tensor \<Rightarrow> real" where
  "mean t = sum_list (flatten t) / real (length (flatten t))"

text \<open>\<open>torch.nn.MSELoss()\<close>, reduction \<open>mean\<close>: a tensor of rank 0.\<close>

definition criterion :: "real tensor \<Rightarrow> real tensor \<Rightarrow> py_error + real tensor" where
  "criterion input target =
     bindE (binop (\<lambda>a b. (a - b)\<^sup>2) input target) (\<lambda>d. Inr (Sc (mean d)))"

text \<open>\<open>F.softmax(z, dim=1)\<close>, slice by slice of dimension 0.\<close>

definition softmax_slice :: "nat list \<Rightarrow> real tensor \<Rightarrow> real tensor" where
  "softmax_slice rest row =
     (case row of
        Sc a \<Rightarrow> Sc a
      | Tn s' cs \<Rightarrow>
          (let es = map (map_tensor exp) cs; total = sum_tensors rest es
           in Tn s' (map (\<lambda>e. zipT (/) e total) es)))"

definition softmax_dim1 :: "real tensor \<Rightarrow> py_error + real tensor" where
  "softmax_dim1 z =
     (case z of
        Sc a \<Rightarrow> Inl IndexError
      | Tn s rows \<Rightarrow>
          (case s of
             [] \<Rightarrow> Inl IndexError
           | g # rest \<Rightarrow> Inr (Tn s (map (softmax_slice rest) rows))))"

text \<open>\<open>t[y]\<close> for a tensor \<open>y\<close> of indices.\<close>

definition index_rows :: "'a tensor \<Rightarrow> nat list \<Rightarrow> py_error + 'a tensor" where
  "index_rows t ys =
     (case t of
        Sc a \<Rightarrow> Inl IndexError
      | Tn s rows \<Rightarrow> bindE (mapE (\<lambda>i. py_index rows (int i)) ys) (\<lambda>rs. Inr (Tn s rs)))"

text \<open>\<open>FM._decode\<close>.\<close>

definition decode :: "nets \<Rightarrow> FM \<Rightarrow> real tensor \<Rightarrow> real tensor \<Rightarrow> py_error + real tensor" where
  "decode n self z size_factor =
     (if encoder_type self \<notin> set [''learnt_autoencoder'', ''learnt_encoder'']
      then Inr (cell_decoder n (scaler_scale n z True) size_factor)
      else
        let z = (if encoder_type self = ''learnt_autoencoder'' then x_from_x0 n z else z)
        in bindE (softmax_dim1 z) (\<lambda>p. binop (*) p size_factor))"

text \<open>\<open>FM.log_probs_x_z0\<close>.\<close>

definition log_probs_x_z0 ::
  "nets \<Rightarrow> FM \<Rightarrow> real tensor \<Rightarrow> real tensor \<Rightarrow> nat list \<Rightarrow> real tensor \<Rightarrow> py_error + real tensor" where
  "log_probs_x_z0 n self x x_0 y size_factor =
     bindE (decode n self x_0 size_factor) (\<lambda>x_hat.
     bindE (if \<not> covariate_specific_theta self then Inr (map_tensor exp (theta n))
            else bindE (index_rows (theta n) y) (\<lambda>th. Inr (map_tensor exp th))) (\<lambda>disp.
     Inr (map_tensor uminus (nb_log_prob n x_hat disp x))))"

text \<open>
  The block of \<open>FM._step\<close> under "Freeze the encoder if the pretraining phase is done".
\<close>

definition freeze_step :: "FM \<Rightarrow> fm_state \<Rightarrow> fm_state" where
  "freeze_step self st =
     (if current_epoch st = pretraining_encoder_epochs self \<and> pretrain_encoder self
         \<and> encoder_type self \<in> set [''learnt_encoder'', ''learnt_autoencoder'']
      then
        st\<lparr>x0_from_x_requires_grad := map (\<lambda>p. False) (x0_from_x_requires_grad st),
           x_from_x0_requires_grad :=
             (if encoder_type self = ''learnt_autoencoder''
              then map (\<lambda>p. False) (x_from_x0_requires_grad st)
              else x_from_x0_requires_grad st),
           lr := learning_rate self,
           opt_weight_decay := weight_decay self\<rparr>
      else st)"

text \<open>
  \<open>FM._step\<close>: the loss and the state after the step. \<open>recons_loss_enc\<close> is a local
  variable bound only in the first branch; reading it unbound raises. Logging is left out.
\<close>

definition step ::
  "collab \<Rightarrow> nets \<Rightarrow> FM \<Rightarrow> fm_state \<Rightarrow> batch \<Rightarrow> py_error + (real \<times> fm_state)" where
  "step c n self st batch =
     (let x = batch_X batch; y = batch_y batch
      in bindE (dict_get (feature_embeddings n) (conditioning_covariate self)) (\<lambda>emb.
         bindE (dict_get y (conditioning_covariate self)) (\<lambda>y_cond.
         let y_fea = emb y_cond;
             x_scaled = scaler_scale n (batch_X_norm batch) False;
             x0 = (if encoder_type self \<in> set [''learnt_encoder'', ''learnt_autoencoder'']
                   then x0_from_x n x_scaled else x_scaled)
         in bindE (sum_dim1 x) (\<lambda>sf.
            bindE (unsqueeze1 sf) (\<lambda>size_factor.
            let log_size_factor = map_tensor ln size_factor
            in bindE (if current_epoch st < pretraining_encoder_epochs self \<and> pretrain_encoder self
                      then bindE (dict_get y (conditioning_covariate self)) (\<lambda>y_cond.
                           bindE (log_probs_x_z0 n self x x0 y_cond size_factor) (\<lambda>r.
                           bindE (sum_dim1 r) (\<lambda>r. Inr (Some r))))
                      else Inr None) (\<lambda>recons_loss_enc.
               let st = freeze_step self st
               in bindE (if (pretraining_encoder_epochs self \<le> current_epoch st \<and> pretrain_encoder self)
                            \<or> \<not> pretrain_encoder self
                         then bindE (shape0 x0) (\<lambda>b.
                              bindE (sample_times c self b) (\<lambda>t.
                              let z = sample_noise_like c x0
                              in bindE (sample_location_and_conditional_flow c self z x0 (Some t))
                                   (\<lambda>(t, x_t, u_t).
                                 let v_t = denoising_model n x_t t log_size_factor y_fea
                                 in criterion u_t v_t)))
                         else (case recons_loss_enc of
                                 None \<Rightarrow> Inl UnboundLocalError
                               | Some r \<Rightarrow> Inr r)) (\<lambda>loss.
                  Inr (mean loss, st))))))))"

text \<open>
  \<open>FM.configure_optimizers\<close>: the learning rate and weight decay of the one parameter
  group (\<open>Adam\<close> has \<open>weight_decay = 0\<close> by default).
\<close>

definition configure_optimizers :: "FM \<Rightarrow> real \<times> real" where
  "configure_optimizers self =
     (if encoder_type self \<in> set [''learnt_encoder'', ''learnt_autoencoder'']
      then (1 / 1000, 0)
      else (learning_rate self, weight_decay self))"

text \<open>
  The state after \<open>__init__\<close> and \<open>configure_optimizers\<close>, for encoder and decoder networks
  of \<open>n_enc\<close> and \<open>n_dec\<close> parameters: a new parameter has \<open>requires_grad = True\<close>.
\<close>

definition initial_state :: "FM \<Rightarrow> nat \<Rightarrow> nat \<Rightarrow> fm_state" where
  "initial_state self n_enc n_dec =
     \<lparr>current_epoch = 0,
      x0_from_x_requires_grad =
        (if encoder_type self = ''learnt_encoder'' \<or> encoder_type self = ''learnt_autoencoder''
         then replicate n_enc True else []),
      x_from_x0_requires_grad =
        (if encoder_type self = ''learnt_encoder'' then []
         else if encoder_type self = ''learnt_autoencoder'' then replicate n_dec True else []),
      lr = fst (configure_optimizers self),
      opt_weight_decay = snd (configure_optimizers self)\<rparr>"

text \<open>
  Training: the trainer never lowers the epoch, and each step that returns leaves a state.
\<close>

inductive steps :: "collab \<Rightarrow> nets \<Rightarrow> FM \<Rightarrow> fm_state \<Rightarrow> fm_state \<Rightarrow> bool"
  for c n self
  where
    steps_refl: "steps c n self st st"
  | steps_next:
      "steps c n self st st' \<Longrightarrow> current_epoch st' \<le> e
         \<Longrightarrow> step c n self (st'\<lparr>current_epoch := e\<rparr>) b = Inr (loss, st'')
         \<Longrightarrow> steps c n self st st''"

text \<open>The two phases of training, read off the epoch as \<open>_step\<close> does.\<close>

datatype phase = Pretraining | Joint

definition phase_of :: "FM \<Rightarrow> fm_state \<Rightarrow> phase" where
  "phase_of self st =
     (if pretrain_encoder self \<and> current_epoch st < pretraining_encoder_epochs self
      then Pretraining else Joint)"

text \<open>The state the transition leaves: flags off, optimizer at the configured values.\<close>

definition frozen :: "FM \<Rightarrow> fm_state \<Rightarrow> bool" where
  "frozen self st \<longleftrightarrow>
     (\<forall>g \<in> set (x0_from_x_requires_grad st). \<not> g)
   \<and> (encoder_type self = ''learnt_autoencoder'' \<longrightarrow>
        (\<forall>g \<in> set (x_from_x0_requires_grad st). \<not> g))
   \<and> lr st = learning_rate self \<and> opt_weight_decay st = weight_decay self"



section \<open>The dispersion parameter\<close>

text \<open>An argument of a Python call.\<close>

datatype pyarg = ArgInt int | ArgBool bool | ArgTensor "real tensor"

text \<open>
  How Python binds the arguments of a call to the parameter names of the callee:
  positional arguments in order, then keywords; too many positional arguments, an
  unknown keyword, or a keyword for a parameter already bound raise TypeError.
\<close>

fun bind_keywords ::
  "string list \<Rightarrow> (string \<times> pyarg) list \<Rightarrow> (string \<times> pyarg) list
     \<Rightarrow> py_error + (string \<times> pyarg) list" where
  "bind_keywords names bound [] = Inr bound"
| "bind_keywords names bound ((k, v) # kws) =
     (if k \<in> set names then
        (if k \<in> set (map fst bound) then Inl TypeError
         else bind_keywords names (bound @ [(k, v)]) kws)
      else Inl TypeError)"

definition bind_args ::
  "string list \<Rightarrow> pyarg list \<Rightarrow> (string \<times> pyarg) list
     \<Rightarrow> py_error + (string \<times> pyarg) list" where
  "bind_args names args kws =
     (if length names < length args then Inl TypeError
      else bind_keywords names (zip names args) kws)"

text \<open>
  \<open>torch.nn.Parameter(data=None, requires_grad=True)\<close>: the tensor \<open>data\<close> as a
  parameter, an empty tensor when \<open>data\<close> is not given; \<open>data\<close> that is not a tensor
  raises TypeError.
\<close>

definition Parameter :: "pyarg list \<Rightarrow> (string \<times> pyarg) list \<Rightarrow> py_error + real tensor" where
  "Parameter args kws =
     bindE (bind_args [''data'', ''requires_grad''] args kws) (\<lambda>bound.
       case map_of bound ''data'' of
         None \<Rightarrow> Inr (Tn [] [])
       | Some (ArgTensor t) \<Rightarrow> Inr t
       | Some (ArgInt i) \<Rightarrow> Inl TypeError
       | Some (ArgBool b) \<Rightarrow> Inl TypeError)"

text \<open>
  The lines of \<open>FM.__init__\<close> under "Define the (log) inverse dispersion parameter":
  without \<open>covariate_specific_theta\<close>,
  \<open>torch.nn.Parameter(torch.randn(self.in_dim), requires_grad=True)\<close>; with it,
  \<open>n_cat = self.feature_embeddings[conditioning_covariate].n_cat\<close> and
  \<open>torch.nn.Parameter(n_cat, torch.randn(self.in_dim), requires_grad=True)\<close>.
  \<open>randn\<close> is \<open>torch.randn\<close>; \<open>n_cats\<close> gives \<open>n_cat\<close> of each covariate's embedding.
\<close>

definition init_theta ::
  "(nat \<Rightarrow> real tensor) \<Rightarrow> (string \<times> int) list \<Rightarrow> FM \<Rightarrow> py_error + real tensor" where
  "init_theta randn n_cats self =
     (if \<not> covariate_specific_theta self then
        Parameter [ArgTensor (randn (in_dim self))] [(''requires_grad'', ArgBool True)]
      else
        bindE (dict_get n_cats (conditioning_covariate self)) (\<lambda>n_cat.
          Parameter [ArgInt n_cat, ArgTensor (randn (in_dim self))]
            [(''requires_grad'', ArgBool True)]))"

text \<open>
  A tensor of shape \<open>(B, g)\<close> from its rows, and a tensor of shape \<open>(B, 1)\<close> from its
  entries: the shape of \<open>size_factor\<close> in \<open>_step\<close> (\<open>x.sum(1).unsqueeze(1)\<close>) and in
  \<open>sample\<close> (\<open>view(-1, 1)\<close>).
\<close>

definition matrix :: "nat \<Rightarrow> 'a list list \<Rightarrow> 'a tensor" where
  "matrix g rows = Tn [g] (map (\<lambda>r. Tn [] (map Sc r)) rows)"

definition column :: "'a list \<Rightarrow> 'a tensor" where
  "column vs = Tn [1] (map (\<lambda>v. Tn [] [Sc v]) vs)"

section \<open>Facts about tensors\<close>

lemma bdims_same: "bdims xs xs = Some xs"
  by (induction xs) auto

lemma broadcast_shapes_same: "broadcast_shapes s s = Some s"
  by (simp add: broadcast_shapes_def bdims_same)

lemma expand_own_shape: "wf_tensor t \<Longrightarrow> expand (shape t) t = t"
proof (induction t)
  case (Sc a)
  then show ?case by simp
next
  case (Tn s ts)
  have elems: "map (expand s) ts = ts"
    using Tn by (auto simp: map_idI)
  show ?case
  proof (cases ts)
    case Nil
    then show ?thesis by simp
  next
    case (Cons u us)
    then show ?thesis using elems by (cases us) auto
  qed
qed

lemma binop_same_shape:
  assumes "wf_tensor a" and "wf_tensor b" and "shape a = shape b"
  shows "binop f a b = Inr (zipT f a b)"
proof -
  have "expand (shape a) a = a" and "expand (shape a) b = b"
    using assms expand_own_shape by metis+
  then show ?thesis
    using assms(3) by (simp add: binop_def broadcast_shapes_same)
qed

lemma shape_wrap: "shape (wrap k a) = replicate k (Suc 0)"
  by (cases k) simp_all

lemma wf_wrap: "wf_tensor (wrap k a)"
  by (induction k) (simp_all add: shape_wrap)

lemma map_tensor_wrap: "map_tensor g (wrap k a) = wrap k (g a)"
  by (induction k) simp_all

lemma shape_map_tensor: "shape (map_tensor g t) = shape t"
  by (cases t) simp_all

lemma wf_map_tensor: "wf_tensor (map_tensor g t) = wf_tensor t"
  by (induction t) (auto simp: shape_map_tensor)

lemma bdims_ones: "length ys = k \<Longrightarrow> bdims (replicate k (Suc 0)) ys = Some ys"
  by (induction k arbitrary: ys) (auto simp: length_Suc_conv)

lemma bdims_snoc:
  "length xs = length ys \<Longrightarrow> bdims (xs @ [b]) (ys @ [b]) = map_option (\<lambda>r. r @ [b]) (bdims xs ys)"
  by (induction xs ys rule: list_induct2) (auto simp: option.map_comp comp_def)

lemma broadcast_shapes_padded:
  "length s = k \<Longrightarrow> broadcast_shapes (n # replicate k (Suc 0)) (n # s) = Some (n # s)"
  by (simp add: broadcast_shapes_def bdims_snoc bdims_ones)

lemma expand_wrap: "length s = k \<Longrightarrow> expand s (wrap k a) = full s a"
  by (induction s arbitrary: k) (auto simp: shape_wrap)

lemma map_zip_replicate:
  "map (\<lambda>(x, y). g x y) (zip (replicate (length ys) c) ys) = map (g c) ys"
  by (induction ys) simp_all

lemma zipT_full: "wf_tensor y \<Longrightarrow> shape y = s \<Longrightarrow> zipT f (full s a) y = map_tensor (f a) y"
proof (induction y arbitrary: s)
  case (Sc b)
  then show ?case by simp
next
  case (Tn s' ys)
  have "map (\<lambda>y. zipT f (full s' a) y) ys = map (map_tensor (f a)) ys"
    using Tn by (intro map_cong) auto
  then show ?case
    using Tn.prems(2) by (auto simp: map_zip_replicate)
qed

lemma zipT_map_tensor:
  "zipT f (map_tensor g x) (map_tensor h y) = zipT (\<lambda>u v. f (g u) (h v)) x y"
  by (induction "\<lambda>u v. f (g u) (h v)" x y rule: zipT.induct) (auto simp: zip_map_map)


lemma binop_padded:
  assumes "wf_tensor (Tn s xs)" and "length ts = length xs"
  shows "binop f (Tn (replicate (length s) (Suc 0)) (map (wrap (length s)) ts)) (Tn s xs)
       = Inr (Tn s (map (\<lambda>(a, x). map_tensor (f a) x) (zip ts xs)))"
proof -
  let ?k = "length s"
  let ?p = "Tn (replicate ?k (Suc 0)) (map (wrap ?k) ts)"
  have bs: "binop f ?p (Tn s xs)
      = Inr (zipT f (expand (length xs # s) ?p) (expand (length xs # s) (Tn s xs)))"
    using assms(2) by (simp add: binop_def broadcast_shapes_padded del: expand.simps)
  have ex: "expand (length xs # s) (Tn s xs) = Tn s xs"
    using expand_own_shape [OF assms(1)] by simp
  have "(case map (wrap ?k) ts of [u] \<Rightarrow> replicate (length xs) (expand s u)
          | _ \<Rightarrow> map (expand s) (map (wrap ?k) ts)) = map (full s) ts"
  proof (cases ts)
    case Nil
    then show ?thesis by simp
  next
    case (Cons a as)
    then show ?thesis
      using assms(2) [symmetric] by (cases as) (auto simp: expand_wrap)
  qed
  then have ep: "expand (length xs # s) ?p = Tn s (map (full s) ts)"
    by simp
  have "map (\<lambda>(x, y). zipT f x y) (zip (map (full s) ts) xs)
      = map (\<lambda>(a, x). map_tensor (f a) x) (zip ts xs)"
  proof -
    have "\<And>a x. (a, x) \<in> set (zip ts xs) \<Longrightarrow> zipT f (full s a) x = map_tensor (f a) x"
      using assms(1) by (auto dest!: set_zip_rightD intro: zipT_full)
    then show ?thesis
      by (auto simp: zip_map1)
  qed
  then show ?thesis
    unfolding bs ex ep by simp
qed


lemma flatten_vector: "concat (map (flatten \<circ> Sc) ts) = ts"
  by (induction ts) simp_all

lemma wf_scaled_slices:
  assumes "wf_tensor (Tn s xs)"
  shows "wf_tensor (Tn s (map (\<lambda>(a, x). map_tensor (g a) x) (zip ts xs)))"
  using assms by (auto simp: wf_map_tensor shape_map_tensor dest!: set_zip_rightD)

lemma shape_zipT:
  "wf_tensor x \<Longrightarrow> wf_tensor y \<Longrightarrow> shape x = shape y \<Longrightarrow> shape (zipT f x y) = shape x"
  by (cases x; cases y) simp_all

lemma wf_zipT:
  "wf_tensor x \<Longrightarrow> wf_tensor y \<Longrightarrow> shape x = shape y \<Longrightarrow> wf_tensor (zipT f x y)"
proof (induction x arbitrary: y)
  case (Sc a)
  then show ?case by (cases y) simp_all
next
  case (Tn s xs)
  then obtain ys where y: "y = Tn s ys" and len: "length ys = length xs"
    by (cases y) auto
  have "wf_tensor (zipT f u v) \<and> shape (zipT f u v) = s" if "(u, v) \<in> set (zip xs ys)" for u v
  proof -
    have u: "u \<in> set xs" and v: "v \<in> set ys"
      using that by (auto dest: set_zip_leftD set_zip_rightD)
    then have "wf_tensor u" "wf_tensor v" "shape u = s" "shape v = s"
      using Tn.prems y by auto
    then show ?thesis
      using Tn.IH [OF u] by (simp add: shape_zipT)
  qed
  then show ?case
    using y by auto
qed

lemma zipT_left:
  "wf_tensor x \<Longrightarrow> wf_tensor y \<Longrightarrow> shape x = shape y \<Longrightarrow> zipT (\<lambda>a b. a) x y = x"
proof (induction x arbitrary: y)
  case (Sc a)
  then show ?case by (cases y) simp_all
next
  case (Tn s xs)
  then obtain ys where y: "y = Tn s ys" and len: "length ys = length xs"
    by (cases y) auto
  have "map (\<lambda>(u, v). zipT (\<lambda>a b. a) u v) (zip xs ys) = xs"
  proof (intro nth_equalityI)
    show "length (map (\<lambda>(u, v). zipT (\<lambda>a b. a) u v) (zip xs ys)) = length xs"
      using len by simp
  next
    fix i
    assume "i < length (map (\<lambda>(u, v). zipT (\<lambda>a b. a) u v) (zip xs ys))"
    then have i: "i < length xs" "i < length ys"
      using len by simp_all
    then have "xs ! i \<in> set xs" "ys ! i \<in> set ys"
      by simp_all
    then have "zipT (\<lambda>a b. a) (xs ! i) (ys ! i) = xs ! i"
      using Tn.prems y by (intro Tn.IH) auto
    then show "map (\<lambda>(u, v). zipT (\<lambda>a b. a) u v) (zip xs ys) ! i = xs ! i"
      using i by simp
  qed
  then show ?case
    using y by simp
qed

lemma zipT_map_right: "zipT f x (map_tensor h y) = zipT (\<lambda>u v. f u (h v)) x y"
  using zipT_map_tensor [of f "\<lambda>u. u" x h y] by (simp add: tensor.map_ident)

lemma sample_xt_unfold:
  "sample_xt self x0 x1 t epsilon =
     bindE (compute_mu_t x0 x1 t) (\<lambda>mu_t.
       binop (+) mu_t (map_tensor (\<lambda>e. sigma self * e) epsilon))"
  by (simp add: sample_xt_def compute_sigma_t_def pad_t_like_x_def val_op_def bindE_def)

lemma add_zero_noise:
  assumes "wf_tensor mu" and "wf_tensor x0" and "shape mu = shape x0"
  shows "binop (+) mu (map_tensor (\<lambda>e. c * e) (zeros_like x0 :: real tensor)) = Inr mu"
proof -
  let ?z = "map_tensor (\<lambda>e. c * e) (zeros_like x0 :: real tensor)"
  have z: "?z = map_tensor (\<lambda>a. 0) x0"
    by (simp add: zeros_like_def tensor.map_comp comp_def)
  have "binop (+) mu ?z = Inr (zipT (+) mu ?z)"
    using assms by (intro binop_same_shape) (simp_all add: z wf_map_tensor shape_map_tensor)
  also have "zipT (+) mu ?z = zipT (\<lambda>a b. a) mu x0"
    by (simp add: z zipT_map_right)
  also have "\<dots> = mu"
    using assms by (rule zipT_left)
  finally show ?thesis .
qed

lemma compute_mu_t_batch:
  assumes "wf_tensor (Tn s xs0)" and "wf_tensor (Tn s xs1)"
    and "length xs0 = length ts" and "length xs1 = length ts"
  shows "compute_mu_t (Tn s xs0) (Tn s xs1) (Ten (Tn [] (map Sc ts)))
       = Inr (Tn s (map (\<lambda>i. zipT (\<lambda>v u. ts ! i * v + (1 - ts ! i) * u) (xs1 ! i) (xs0 ! i))
                        [0..<length ts]))"
proof -
  let ?k = "length s"
  let ?A = "Tn s (map (\<lambda>(a, x). map_tensor ((*) a) x) (zip ts xs1))"
  let ?B = "Tn s (map (\<lambda>(a, x). map_tensor ((*) a) x) (zip (map (\<lambda>a. 1 - a) ts) xs0))"
  have pad: "pad_t_like_x (Ten (Tn [] (map Sc ts))) (Tn s xs0)
           = Ten (Tn (replicate ?k (Suc 0)) (map (wrap ?k) ts))"
    by (simp add: pad_t_like_x_def flatten_vector Let_def)
  have a: "val_op (*) (Ten (Tn (replicate ?k (Suc 0)) (map (wrap ?k) ts))) (Tn s xs1) = Inr ?A"
    using binop_padded [OF assms(2), of ts "(*)"] assms(4) by (simp add: val_op_def)
  have m: "num_minus 1 (Ten (Tn (replicate ?k (Suc 0)) (map (wrap ?k) ts)))
         = Ten (Tn (replicate ?k (Suc 0)) (map (wrap ?k) (map (\<lambda>a. 1 - a) ts)))"
    by (simp add: num_minus_def map_tensor_wrap comp_def)
  have b: "val_op (*) (Ten (Tn (replicate ?k (Suc 0)) (map (wrap ?k) (map (\<lambda>a. 1 - a) ts))))
             (Tn s xs0) = Inr ?B"
    using binop_padded [OF assms(1), of "map (\<lambda>a. 1 - a) ts" "(*)"] assms(3)
    by (simp add: val_op_def)
  have "wf_tensor ?A" and "wf_tensor ?B"
    using assms(1,2) by (simp_all only: wf_scaled_slices)
  moreover have "shape ?A = shape ?B"
    using assms(3,4) by simp
  ultimately have c: "binop (+) ?A ?B = Inr (zipT (+) ?A ?B)"
    by (rule binop_same_shape)
  have d: "zipT (+) ?A ?B
         = Tn s (map (\<lambda>i. zipT (\<lambda>v u. ts ! i * v + (1 - ts ! i) * u) (xs1 ! i) (xs0 ! i))
                     [0..<length ts])"
  proof -
    have "map (\<lambda>(x, y). zipT (+) x y)
            (zip (map (\<lambda>(a, x). map_tensor ((*) a) x) (zip ts xs1))
                 (map (\<lambda>(a, x). map_tensor ((*) a) x) (zip (map (\<lambda>a. 1 - a) ts) xs0)))
        = map (\<lambda>i. zipT (\<lambda>v u. ts ! i * v + (1 - ts ! i) * u) (xs1 ! i) (xs0 ! i))
            [0..<length ts]"
      using assms(3,4) by (intro nth_equalityI) (simp_all add: zipT_map_tensor)
    then show ?thesis by simp
  qed
  have "compute_mu_t (Tn s xs0) (Tn s xs1) (Ten (Tn [] (map Sc ts))) = binop (+) ?A ?B"
    unfolding compute_mu_t_def Let_def pad a m b by (simp add: bindE_def)
  also note c
  also note d
  finally show ?thesis .
qed

lemma binop_error: "binop f a b = Inl e \<Longrightarrow> e = RuntimeError"
  by (auto simp: binop_def split: option.splits)

lemma val_op_error: "val_op f v x = Inl e \<Longrightarrow> e = RuntimeError"
  by (auto simp: val_op_def split: pyval.splits dest: binop_error)

lemma compute_mu_t_error: "compute_mu_t x0 x1 t = Inl e \<Longrightarrow> e = RuntimeError"
  by (auto simp: compute_mu_t_def bindE_def Let_def split: sum.splits
      dest: binop_error val_op_error)

lemma sample_xt_error: "sample_xt self x0 x1 t epsilon = Inl e \<Longrightarrow> e = RuntimeError"
  by (auto simp: sample_xt_unfold bindE_def split: sum.splits
      dest: binop_error compute_mu_t_error)

lemma compute_conditional_flow_error:
  "compute_conditional_flow x0 x1 t xt = Inl e \<Longrightarrow> e = RuntimeError"
  by (auto simp: compute_conditional_flow_def dest: binop_error)

section \<open>Facts about the data loader\<close>

lemma mapE_Inr: "mapE f xs = Inr ys \<Longrightarrow> length ys = length xs \<and> (\<forall>j < length xs. f (xs ! j) = Inr (ys ! j))"
proof (induction xs arbitrary: ys)
  case Nil
  then show ?case by simp
next
  case (Cons x xs)
  then show ?case
    by (auto simp: bindE_def nth_Cons split: sum.splits nat.splits)
qed

lemma fold_update_fresh:
  "distinct (map fst kvs) \<Longrightarrow> fst ` set kvs \<inter> fst ` set acc = {}
     \<Longrightarrow> fold (\<lambda>(k, v). AList.update k v) kvs acc = acc @ kvs"
proof (induction kvs arbitrary: acc)
  case Nil
  then show ?case by simp
next
  case (Cons kv kvs)
  obtain k v where kv: "kv = (k, v)" by (cases kv)
  have "k \<notin> fst ` set acc" using Cons.prems kv by auto
  then have "AList.update k v acc = acc @ [(k, v)]"
    by (induction acc) auto
  then show ?case
    using Cons kv by (auto simp: image_Un)
qed

lemma np_unique_props: "distinct (np_unique xs)" "sorted (np_unique xs)" "set (np_unique xs) = set xs"
  "length (np_unique xs) = card (set xs)"
  by (simp_all add: np_unique_def length_remdups_card_conv)

lemma py_dict_unique:
  "py_dict (zip (np_unique cov) [0..<length (np_unique cov)]) = zip (np_unique cov) [0..<card (set cov)]"
  unfolding py_dict_def
  by (subst fold_update_fresh) (simp_all add: np_unique_props)

lemma py_dict_cat_dict:
  "py_dict (zip (np_unique cov) [0..<length (np_unique cov)]) = cat_dict cov"
  using py_dict_unique [of cov] by (simp add: cat_dict_def np_unique_def)

lemma cat_dict_lookup:
  assumes "c \<in> set cov"
  shows "\<exists>v. map_of (cat_dict cov) c = Some v \<and> v < card (set cov)"
proof -
  have len: "length (sort (remdups cov)) = length [0..<card (set cov)]"
    by (simp add: length_remdups_card_conv)
  have "c \<in> set (sort (remdups cov))" using assms by simp
  then obtain v where v: "map_of (cat_dict cov) c = Some v"
    unfolding cat_dict_def using map_of_zip_is_Some [OF len] by blast
  then have "v \<in> set [0..<card (set cov)]"
    unfolding cat_dict_def by (auto dest!: map_of_SomeD set_zip_rightD)
  then show ?thesis using v by simp
qed

lemma mapE_dict_get_cat_ids:
  assumes "mapE (dict_get (cat_dict cov)) cov = Inr ys"
  shows "ys = cat_ids cov"
proof (rule nth_equalityI)
  show "length ys = length (cat_ids cov)"
    using mapE_Inr [OF assms] by (simp add: cat_ids_def)
next
  fix j assume "j < length ys"
  then have j: "j < length cov" using mapE_Inr [OF assms] by simp
  then have "dict_get (cat_dict cov) (cov ! j) = Inr (ys ! j)"
    using mapE_Inr [OF assms] by simp
  then have "map_of (cat_dict cov) (cov ! j) = Some (ys ! j)"
    by (auto simp: dict_get_def split: option.splits)
  then show "ys ! j = cat_ids cov ! j"
    using j by (simp add: cat_ids_def)
qed

lemma cov_tables_ok_update:
  assumes "cov_tables_ok adata_obs i2c yc" and "map_of adata_obs k = Some cov"
  shows "cov_tables_ok adata_obs (AList.update k (cat_dict cov) i2c) (AList.update k (cat_ids cov) yc)"
  using assms unfolding cov_tables_ok_def
  by (auto simp: update_conv' distinct_update)

lemma cov_loop_ok:
  assumes "cov_loop adata_obs ks (i2c, yc) = Inr (i2c', yc')" and "cov_tables_ok adata_obs i2c yc"
  shows "cov_tables_ok adata_obs i2c' yc'
       \<and> (\<forall>k. k \<in> set ks \<or> map_of i2c k \<noteq> None \<longrightarrow> map_of i2c' k \<noteq> None)"
  using assms
proof (induction ks arbitrary: i2c yc)
  case Nil
  then show ?case by simp
next
  case (Cons k ks)
  from Cons.prems(1) obtain cov ys where
    cov: "map_of adata_obs k = Some cov"
    and ys: "mapE (dict_get (cat_dict cov)) cov = Inr ys"
    and rest: "cov_loop adata_obs ks (AList.update k (cat_dict cov) i2c, AList.update k ys yc)
                = Inr (i2c', yc')"
    by (auto simp: bindE_def dict_get_def Let_def py_dict_cat_dict split: option.splits sum.splits)
  have ys': "ys = cat_ids cov" using ys by (rule mapE_dict_get_cat_ids)
  have ok: "cov_tables_ok adata_obs (AList.update k (cat_dict cov) i2c) (AList.update k ys yc)"
    unfolding ys' using Cons.prems(2) cov by (rule cov_tables_ok_update)
  have "cov_tables_ok adata_obs i2c' yc'
      \<and> (\<forall>k'. k' \<in> set ks \<or> map_of (AList.update k (cat_dict cov) i2c) k' \<noteq> None
            \<longrightarrow> map_of i2c' k' \<noteq> None)"
    using rest ok by (rule Cons.IH)
  then show ?case
    by (auto simp: update_conv')
qed


lemma cat_dict_bij:
  "bij_betw (\<lambda>c. the (map_of (cat_dict cov) c)) (set cov) {0..<card (set cov)}"
proof -
  let ?u = "sort (remdups cov)"
  let ?n = "card (set cov)"
  have len: "length ?u = ?n" by (simp add: length_remdups_card_conv)
  have dist: "distinct ?u" by simp
  have at: "map_of (cat_dict cov) (?u ! i) = Some i" if "i < ?n" for i
  proof -
    have "map_of (zip ?u [0..<?n]) (?u ! i) = Some ([0..<?n] ! i)"
      using len dist that by (intro map_of_zip_nth) simp_all
    then show ?thesis using that by (simp add: cat_dict_def)
  qed
  show ?thesis
  proof (rule bij_betw_byWitness [where f' = "\<lambda>i. ?u ! i"])
    show "\<forall>a\<in>set cov. ?u ! the (map_of (cat_dict cov) a) = a"
    proof
      fix a assume "a \<in> set cov"
      then have "a \<in> set ?u" by simp
      then obtain i where "i < length ?u" "?u ! i = a"
        using in_set_conv_nth [of a ?u] by blast
      then show "?u ! the (map_of (cat_dict cov) a) = a"
        using at [of i] len by auto
    qed
  next
    show "\<forall>a'\<in>{0..<?n}. the (map_of (cat_dict cov) (?u ! a')) = a'"
      using at by simp
  next
    show "(\<lambda>c. the (map_of (cat_dict cov) c)) ` set cov \<subseteq> {0..<?n}"
      using cat_dict_lookup [of _ cov] by fastforce
  next
    have "?u ! i \<in> set cov" if "i < ?n" for i
    proof -
      have "?u ! i \<in> set ?u" using that len by (intro nth_mem) simp
      then show ?thesis by simp
    qed
    then show "(\<lambda>i. ?u ! i) ` {0..<?n} \<subseteq> set cov"
      by auto
  qed
qed

lemma cat_ids_range: "v \<in> set (cat_ids cov) \<Longrightarrow> v < card (set cov)"
  using cat_dict_lookup [of _ cov] by (fastforce simp: cat_ids_def)

lemma length_cat_dict: "length (cat_dict cov) = card (set cov)"
  by (simp add: cat_dict_def length_remdups_card_conv)

lemma py_index_in_set: "py_index xs i = Inr v \<Longrightarrow> v \<in> set xs"
  by (auto simp: py_index_def Let_def split: if_splits)

lemma init_tables:
  assumes "RNAseqLoader_init nt bin (Some keys) mods xs adata_obs = Inr L"
  shows "cov_tables_ok adata_obs (id2cov L) (Y_cov L)
       \<and> (\<forall>k \<in> set keys. map_of (id2cov L) k \<noteq> None)"
proof -
  from assms obtain i2c yc where
    loop: "cov_loop adata_obs keys ([], []) = Inr (i2c, yc)"
    and L: "id2cov L = i2c" "Y_cov L = yc"
    by (auto simp: RNAseqLoader_init_def bindE_def split: sum.splits)
  have "cov_tables_ok adata_obs [] []"
    by (simp add: cov_tables_ok_def)
  with loop show ?thesis
    unfolding L by (auto dest: cov_loop_ok)
qed

lemma mapE_keys:
  "mapE (\<lambda>(cov, ys). bindE (py_index ys i) (\<lambda>v. Inr (cov, v))) xs = Inr y
     \<Longrightarrow> map fst y = map fst xs"
proof (induction xs arbitrary: y)
  case Nil
  then show ?case by simp
next
  case (Cons x xs)
  then show ?case
    by (auto simp: bindE_def split: sum.splits prod.splits)
qed

lemma getitem_y_keys:
  assumes "getitem nrm L i = Inr it"
  shows "map fst (item_y it) = map fst (Y_cov L)"
proof -
  from assms have "mapE (\<lambda>(cov, ys). bindE (py_index ys i) (\<lambda>v. Inr (cov, v))) (Y_cov L)
      = Inr (item_y it)"
    by (auto simp: getitem_def bindE_def split: sum.splits)
  then show ?thesis by (rule mapE_keys)
qed

lemma getitem_y_range:
  assumes "cov_tables_ok adata_obs (id2cov L) (Y_cov L)"
    and "getitem nrm L i = Inr it" and "(k, v) \<in> set (item_y it)"
  shows "\<exists>m. map_of (id2cov L) k = Some m \<and> v < length m"
proof -
  from assms(2) have y: "mapE (\<lambda>(cov, ys). bindE (py_index ys i) (\<lambda>v. Inr (cov, v))) (Y_cov L)
      = Inr (item_y it)"
    by (auto simp: getitem_def bindE_def split: sum.splits)
  from assms(3) obtain j where j: "j < length (item_y it)" "item_y it ! j = (k, v)"
    by (auto simp: in_set_conv_nth)
  obtain k' ys where e: "Y_cov L ! j = (k', ys)"
    by (cases "Y_cov L ! j")
  have jl: "j < length (Y_cov L)"
    using mapE_Inr [OF y] j by simp
  then have "bindE (py_index ys i) (\<lambda>v. Inr (k', v)) = Inr (k, v)"
    using mapE_Inr [OF y] j e by auto
  then have kv: "k' = k" "py_index ys i = Inr v"
    by (auto simp: bindE_def split: sum.splits)
  have "(k, ys) \<in> set (Y_cov L)"
    using jl e kv by (metis nth_mem)
  then have "map_of (Y_cov L) k = Some ys"
    using assms(1) by (simp add: cov_tables_ok_def)
  then obtain cov where "map_of (id2cov L) k = Some (cat_dict cov)" "ys = cat_ids cov"
    using assms(1) unfolding cov_tables_ok_def by blast
  then show ?thesis
    using py_index_in_set [OF kv(2)] cat_ids_range [of v cov] by (simp add: length_cat_dict)
qed

section \<open>Facts about the training step\<close>

lemma step_state: "step c n self st b = Inr (loss, st') \<Longrightarrow> st' = freeze_step self st"
  by (auto simp: step_def bindE_def Let_def split: sum.splits)


lemma steps_epoch: "steps c n self st st' \<Longrightarrow> current_epoch st \<le> current_epoch st'"
proof (induction rule: steps.induct)
  case (steps_refl st)
  then show ?case by simp
next
  case (steps_next st st' e b loss st'')
  from steps_next(3) have "st'' = freeze_step self (st'\<lparr>current_epoch := e\<rparr>)"
    by (rule step_state)
  then have "current_epoch st'' = e"
    by (simp add: freeze_step_def)
  then show ?case using steps_next by simp
qed

lemma steps_from_initial:
  assumes "steps c n self (initial_state self n_enc n_dec) st"
  shows "(encoder_type self \<notin> set [''learnt_encoder'', ''learnt_autoencoder'']
            \<longrightarrow> lr st = learning_rate self \<and> opt_weight_decay st = weight_decay self)
       \<and> length (x0_from_x_requires_grad st)
           = (if encoder_type self \<in> set [''learnt_encoder'', ''learnt_autoencoder'']
              then n_enc else 0)
       \<and> length (x_from_x0_requires_grad st)
           = (if encoder_type self = ''learnt_autoencoder'' then n_dec else 0)"
  using assms
proof (induction "initial_state self n_enc n_dec" st rule: steps.induct)
  case steps_refl
  then show ?case
    by (simp add: initial_state_def configure_optimizers_def)
next
  case (steps_next st' e b loss st'')
  from steps_next(4) have "st'' = freeze_step self (st'\<lparr>current_epoch := e\<rparr>)"
    by (rule step_state)
  then show ?case
    using steps_next(2) by (auto simp: freeze_step_def)
qed

lemma map_False_id: "\<forall>g \<in> set gs. \<not> g \<Longrightarrow> map (\<lambda>p. False) gs = gs"
  by (induction gs) auto

lemma freeze_step_frozen:
  assumes "frozen self st"
  shows "freeze_step self (st\<lparr>current_epoch := e\<rparr>) = st\<lparr>current_epoch := e\<rparr>"
  using assms by (cases st) (auto simp: frozen_def freeze_step_def map_False_id)

lemma steps_frozen:
  assumes "steps c n self st st'" and "frozen self st"
  shows "frozen self st'
       \<and> x0_from_x_requires_grad st' = x0_from_x_requires_grad st
       \<and> x_from_x0_requires_grad st' = x_from_x0_requires_grad st
       \<and> lr st' = lr st \<and> opt_weight_decay st' = opt_weight_decay st"
  using assms
proof (induction rule: steps.induct)
  case (steps_refl st)
  then show ?case by simp
next
  case (steps_next st st' e b loss st'')
  have ih: "frozen self st'
       \<and> x0_from_x_requires_grad st' = x0_from_x_requires_grad st
       \<and> x_from_x0_requires_grad st' = x_from_x0_requires_grad st
       \<and> lr st' = lr st \<and> opt_weight_decay st' = opt_weight_decay st"
    using steps_next.IH steps_next.prems by blast
  then have fr: "frozen self st'" by simp
  from steps_next.hyps(3) have "st'' = freeze_step self (st'\<lparr>current_epoch := e\<rparr>)"
    by (rule step_state)
  then have eq: "st'' = st'\<lparr>current_epoch := e\<rparr>"
    using freeze_step_frozen [OF fr] by simp
  have "frozen self st''"
    using fr unfolding eq by (auto simp: frozen_def)
  then show ?case
    using ih unfolding eq by simp
qed


section \<open>Facts about decoding\<close>

lemma fold_add_scalars:
  "fold (\<lambda>t acc. zipT (+) acc t) (map Sc vs) (Sc a) = Sc (a + sum_list vs :: real)"
  by (induction vs arbitrary: a) (simp_all add: add.assoc)

lemma softmax_slice_vector:
  "softmax_slice [] (Tn [] (map Sc r))
     = Tn [] (map (\<lambda>v. Sc (exp v / sum_list (map exp r))) r)"
proof -
  have "sum_tensors [] (map (map_tensor exp) (map Sc r)) = Sc (sum_list (map exp r))"
    using fold_add_scalars [of "map exp r" 0] by (simp add: sum_tensors_def comp_def)
  then show ?thesis
    by (simp add: softmax_slice_def Let_def comp_def)
qed

lemma softmax_dim1_matrix:
  "softmax_dim1 (matrix g rows)
     = Inr (matrix g (map (\<lambda>r. map (\<lambda>v. exp v / sum_list (map exp r)) r) rows))"
  by (simp add: softmax_dim1_def matrix_def softmax_slice_vector comp_def)

lemma zipT_row_scalar:
  "length r = g \<Longrightarrow>
   zipT f (Tn [] (map Sc r)) (Tn [] (replicate g (Sc s))) = Tn [] (map (\<lambda>v. Sc (f v s)) r)"
proof -
  assume "length r = g"
  then have "map (\<lambda>(x, y). zipT f x y) (zip (map Sc r) (replicate g (Sc s)))
      = map (\<lambda>v. Sc (f v s)) r"
    by (intro nth_equalityI) simp_all
  then show ?thesis by simp
qed

lemma binop_matrix_column:
  assumes "\<forall>r \<in> set rows. length r = g" and "length sfs = length rows"
  shows "binop f (matrix g rows) (column sfs)
       = Inr (matrix g (map (\<lambda>(r, s). map (\<lambda>v. f v s) r) (zip rows sfs)))"
proof -
  have wf: "wf_tensor (matrix g rows)"
    using assms(1) by (auto simp: matrix_def)
  have sh: "shape (matrix g rows) = [length rows, g]"
    by (simp add: matrix_def)
  have bs: "broadcast_shapes (shape (matrix g rows)) (shape (column sfs)) = Some [length rows, g]"
    using assms(2) by (simp add: matrix_def column_def broadcast_shapes_def)
  have e1: "expand [length rows, g] (matrix g rows) = matrix g rows"
    using expand_own_shape [OF wf] sh by simp
  have "(case map (\<lambda>v. Tn [] [Sc v]) sfs of
           [u] \<Rightarrow> replicate (length rows) (expand [g] u)
         | _ \<Rightarrow> map (expand [g]) (map (\<lambda>v. Tn [] [Sc v]) sfs))
      = map (\<lambda>v. Tn [] (replicate g (Sc v))) sfs"
  proof (cases sfs)
    case Nil
    then show ?thesis by simp
  next
    case (Cons a as)
    then show ?thesis
      using assms(2) [symmetric] by (cases as) auto
  qed
  then have e2: "expand [length rows, g] (column sfs)
      = Tn [g] (map (\<lambda>v. Tn [] (replicate g (Sc v))) sfs)"
    by (simp add: column_def)
  have "map (\<lambda>(x, y). zipT f x y)
          (zip (map (\<lambda>r. Tn [] (map Sc r)) rows) (map (\<lambda>v. Tn [] (replicate g (Sc v))) sfs))
      = map (\<lambda>r. Tn [] (map Sc r)) (map (\<lambda>(r, s). map (\<lambda>v. f v s) r) (zip rows sfs))"
  proof (intro nth_equalityI)
    show "length (map (\<lambda>(x, y). zipT f x y)
          (zip (map (\<lambda>r. Tn [] (map Sc r)) rows) (map (\<lambda>v. Tn [] (replicate g (Sc v))) sfs)))
      = length (map (\<lambda>r. Tn [] (map Sc r)) (map (\<lambda>(r, s). map (\<lambda>v. f v s) r) (zip rows sfs)))"
      by simp
  next
    fix i
    assume "i < length (map (\<lambda>(x, y). zipT f x y)
          (zip (map (\<lambda>r. Tn [] (map Sc r)) rows) (map (\<lambda>v. Tn [] (replicate g (Sc v))) sfs)))"
    then have i: "i < length rows" "i < length sfs"
      by simp_all
    then have "length (rows ! i) = g"
      using assms(1) by simp
    then show "map (\<lambda>(x, y). zipT f x y)
          (zip (map (\<lambda>r. Tn [] (map Sc r)) rows) (map (\<lambda>v. Tn [] (replicate g (Sc v))) sfs)) ! i
      = map (\<lambda>r. Tn [] (map Sc r)) (map (\<lambda>(r, s). map (\<lambda>v. f v s) r) (zip rows sfs)) ! i"
      using i zipT_row_scalar [of "rows ! i" g f "sfs ! i"] by (simp del: zipT.simps)
  qed
  then have z: "zipT f (matrix g rows) (Tn [g] (map (\<lambda>v. Tn [] (replicate g (Sc v))) sfs))
      = matrix g (map (\<lambda>(r, s). map (\<lambda>v. f v s) r) (zip rows sfs))"
    by (simp add: matrix_def)
  have "binop f (matrix g rows) (column sfs)
      = Inr (zipT f (expand [length rows, g] (matrix g rows))
               (expand [length rows, g] (column sfs)))"
    by (simp add: binop_def bs del: expand.simps)
  then show ?thesis
    unfolding e1 e2 z .
qed

lemma sum_exp_pos:
  assumes "r \<noteq> []"
  shows "0 < sum_list (map exp (r :: real list))"
proof -
  obtain a as where r: "r = a # as"
    using assms by (cases r) auto
  have "0 \<le> sum_list (map exp as)"
    by (intro sum_list_nonneg) auto
  then have "0 < exp a + sum_list (map exp as)"
    by (intro add_pos_nonneg) simp_all
  then show ?thesis by (simp add: r)
qed

lemma sum_list_scaled: "sum_list (map (\<lambda>v. f v * c) r) = sum_list (map f r) * (c :: real)"
  by (induction r) (simp_all add: distrib_right)

lemma softmax_row_sum:
  assumes "r \<noteq> []"
  shows "sum_list (map (\<lambda>v. exp v / sum_list (map exp r) * s) r) = (s :: real)"
proof -
  let ?t = "sum_list (map exp r)"
  have pos: "0 < ?t"
    using assms by (rule sum_exp_pos)
  have "sum_list (map (\<lambda>v. exp v * (s / ?t)) r) = ?t * (s / ?t)"
    by (rule sum_list_scaled)
  moreover have "(\<lambda>v. exp v / ?t * s) = (\<lambda>v. exp v * (s / ?t))"
    by (simp add: fun_eq_iff)
  ultimately show ?thesis
    using pos by simp
qed

text \<open>
  Decoding with a learnt encoder: when the tensor that enters the softmax is a matrix with
  at least one column and the size factors are positive, \<open>_decode\<close> returns a matrix of
  non-negative entries whose rows sum to the size factors. The \<open>fixed\<close> variant returns
  what \<open>CellDecoder\<close> returns.
\<close>

lemma decode_learnt_rows:
  assumes "encoder_type self = ''learnt_encoder'' \<or> encoder_type self = ''learnt_autoencoder''"
    and "(if encoder_type self = ''learnt_autoencoder'' then x_from_x0 n z else z) = matrix g rows"
    and "\<forall>r \<in> set rows. length r = g" and "0 < g"
    and "length sfs = length rows" and "\<forall>s \<in> set sfs. 0 < s"
  shows "\<exists>out. decode n self z (column sfs) = Inr (matrix g out)
           \<and> length out = length rows
           \<and> (\<forall>i < length rows. (\<forall>v \<in> set (out ! i). 0 \<le> v) \<and> sum_list (out ! i) = sfs ! i)"
proof -
  let ?p = "map (\<lambda>r. map (\<lambda>v. exp v / sum_list (map exp r)) r) rows"
  let ?out = "map (\<lambda>(r, s). map (\<lambda>v. v * s) r) (zip ?p sfs)"
  have "decode n self z (column sfs)
      = bindE (softmax_dim1 (matrix g rows)) (\<lambda>p. binop (*) p (column sfs))"
    using assms(1,2) by (auto simp: decode_def Let_def)
  also have "\<dots> = binop (*) (matrix g ?p) (column sfs)"
    by (simp add: softmax_dim1_matrix bindE_def)
  also have "\<dots> = Inr (matrix g ?out)"
    using assms(3,5) by (intro binop_matrix_column) auto
  finally have d: "decode n self z (column sfs) = Inr (matrix g ?out)" .
  have "(\<forall>v \<in> set (?out ! i). 0 \<le> v) \<and> sum_list (?out ! i) = sfs ! i" if "i < length rows" for i
  proof -
    have mem: "rows ! i \<in> set rows"
      using that by (rule nth_mem)
    then have "length (rows ! i) = g"
      using assms(3) by blast
    then have ne: "rows ! i \<noteq> []"
      using assms(4) by auto
    have "sfs ! i \<in> set sfs"
      using that assms(5) by simp
    then have s: "0 < sfs ! i"
      using assms(6) by blast
    have il: "i < length (zip ?p sfs)"
      using that assms(5) by simp
    have "?out ! i = (\<lambda>(r, s). map (\<lambda>v. v * s) r) (zip ?p sfs ! i)"
      using il by (rule nth_map)
    also have "zip ?p sfs ! i = (?p ! i, sfs ! i)"
      using that assms(5) by (intro nth_zip) simp_all
    also have "?p ! i = map (\<lambda>v. exp v / sum_list (map exp (rows ! i))) (rows ! i)"
      using that by (rule nth_map)
    finally have row: "?out ! i
        = map (\<lambda>v. exp v / sum_list (map exp (rows ! i)) * (sfs ! i)) (rows ! i)"
      by (simp add: comp_def)
    have t: "0 < sum_list (map exp (rows ! i))"
      using ne by (rule sum_exp_pos)
    have "0 \<le> exp v / sum_list (map exp (rows ! i)) * (sfs ! i)" for v :: real
      using t s by (intro mult_nonneg_nonneg divide_nonneg_nonneg) simp_all
    then have nonneg: "\<forall>v \<in> set (?out ! i). 0 \<le> v"
      unfolding row by auto
    have "sum_list (?out ! i) = sfs ! i"
      unfolding row using ne by (rule softmax_row_sum)
    then show ?thesis
      using nonneg by blast
  qed
  then have all: "\<forall>i < length rows.
      (\<forall>v \<in> set (?out ! i). 0 \<le> v) \<and> sum_list (?out ! i) = sfs ! i"
    by blast
  have len: "length ?out = length rows"
    using assms(5) by simp
  show ?thesis
    using d len all by blast
qed

section \<open>Claims\<close>

text \<open>
  C1. For equally shaped batches \<open>x0\<close> and \<open>x1\<close>, \<open>compute_conditional_flow\<close> returns the
  elementwise difference \<open>x1 - x0\<close>, whatever the time \<open>t\<close> and the sampled point \<open>xt\<close>
  are: changing \<open>t\<close> or \<open>xt\<close> leaves the result unchanged.
\<close>

theorem compute_conditional_flow_endpoints:
  assumes "wf_tensor x0" and "wf_tensor x1" and "shape x0 = shape x1"
  shows "compute_conditional_flow x0 x1 t xt = Inr (zipT (-) x1 x0)
       \<and> compute_conditional_flow x0 x1 t' xt' = compute_conditional_flow x0 x1 t xt"
  using assms by (simp add: compute_conditional_flow_def binop_same_shape)

theorem compute_conditional_flow_endpoints_witness:
  "compute_conditional_flow
     (Tn [2] [Tn [] [Sc (1::int), Sc 2], Tn [] [Sc 3, Sc 4]])
     (Tn [2] [Tn [] [Sc 10, Sc 20], Tn [] [Sc 30, Sc 40]])
     (Ten (Tn [] [Sc 0, Sc 1]))
     (Tn [2] [Tn [] [Sc 5, Sc 5], Tn [] [Sc 5, Sc 5]])
   = Inr (Tn [2] [Tn [] [Sc 9, Sc 18], Tn [] [Sc 27, Sc 36]])
   \<and> compute_conditional_flow
     (Tn [2] [Tn [] [Sc (1::int), Sc 2], Tn [] [Sc 3, Sc 4]])
     (Tn [2] [Tn [] [Sc 10, Sc 20], Tn [] [Sc 30, Sc 40]])
     (Num 7)
     (Tn [2] [Tn [] [Sc 0, Sc 0], Tn [] [Sc 0, Sc 0]])
   = Inr (Tn [2] [Tn [] [Sc 9, Sc 18], Tn [] [Sc 27, Sc 36]])"
  using compute_conditional_flow_endpoints
    [of "Tn [2] [Tn [] [Sc (1::int), Sc 2], Tn [] [Sc 3, Sc 4]]"
        "Tn [2] [Tn [] [Sc 10, Sc 20], Tn [] [Sc 30, Sc 40]]"
        "Ten (Tn [] [Sc 0, Sc 1])"
        "Tn [2] [Tn [] [Sc 5, Sc 5], Tn [] [Sc 5, Sc 5]]"
        "Num 7"
        "Tn [2] [Tn [] [Sc 0, Sc 0], Tn [] [Sc 0, Sc 0]]"]
  by simp

text \<open>
  C2. For equally shaped batches \<open>x0\<close>, \<open>x1\<close> of \<open>B\<close> slices and a time vector \<open>t\<close> of
  \<open>B\<close> entries, \<open>compute_mu_t\<close> returns the batch whose slice \<open>i\<close> is
  \<open>t[i] * x1[i] + (1 - t[i]) * x0[i]\<close>, the time of sample \<open>i\<close> applied to every entry
  of that sample in all trailing dimensions.
\<close>

theorem compute_mu_t_interpolates:
  assumes "wf_tensor (Tn s xs0)" and "wf_tensor (Tn s xs1)"
    and "length xs0 = length ts" and "length xs1 = length ts"
  shows "compute_mu_t (Tn s xs0) (Tn s xs1) (Ten (Tn [] (map Sc ts)))
       = Inr (Tn s (map (\<lambda>i. zipT (\<lambda>v u. ts ! i * v + (1 - ts ! i) * u) (xs1 ! i) (xs0 ! i))
                        [0..<length ts]))"
  using assms by (rule compute_mu_t_batch)

theorem compute_mu_t_interpolates_witness:
  "compute_mu_t
     (Tn [2] [Tn [] [Sc (1::int), Sc 2], Tn [] [Sc 3, Sc 4]])
     (Tn [2] [Tn [] [Sc 10, Sc 20], Tn [] [Sc 30, Sc 40]])
     (Ten (Tn [] [Sc 0, Sc 2]))
   = Inr (Tn [2] [Tn [] [Sc 1, Sc 2], Tn [] [Sc 57, Sc 76]])"
  using compute_mu_t_interpolates
    [of "[2]" "[Tn [] [Sc (1::int), Sc 2], Tn [] [Sc 3, Sc 4]]"
        "[Tn [] [Sc 10, Sc 20], Tn [] [Sc 30, Sc 40]]" "[0, 2]"]
  by (simp add: upt_rec)

text \<open>
  C3. \<open>compute_sigma_t\<close> is the configured \<open>sigma\<close> for every \<open>t\<close>; \<open>sample_xt\<close> is
  \<open>compute_mu_t(x0, x1, t) + sigma * epsilon\<close>; and for equally shaped batches with a
  time vector of batch length and all-zero noise, \<open>sample_xt\<close> is \<open>compute_mu_t\<close>, for
  every \<open>t\<close> (in particular for every \<open>t\<close> in \<open>[0, 1]\<close>).
\<close>

theorem sample_xt_mean_plus_noise:
  assumes "wf_tensor (Tn s xs0)" and "wf_tensor (Tn s xs1)"
    and "length xs0 = length ts" and "length xs1 = length ts"
  shows "compute_sigma_t self t = Num (sigma self)
       \<and> sample_xt self x0 x1 t epsilon =
           bindE (compute_mu_t x0 x1 t) (\<lambda>mu_t.
             binop (+) mu_t (map_tensor (\<lambda>e. sigma self * e) epsilon))
       \<and> sample_xt self (Tn s xs0) (Tn s xs1) (Ten (Tn [] (map Sc ts))) (zeros_like (Tn s xs0))
         = compute_mu_t (Tn s xs0) (Tn s xs1) (Ten (Tn [] (map Sc ts)))"
proof -
  let ?mu = "Tn s (map (\<lambda>i. zipT (\<lambda>v u. ts ! i * v + (1 - ts ! i) * u) (xs1 ! i) (xs0 ! i))
                      [0..<length ts])"
  have mu: "compute_mu_t (Tn s xs0) (Tn s xs1) (Ten (Tn [] (map Sc ts))) = Inr ?mu"
    using assms by (rule compute_mu_t_batch)
  have "wf_tensor ?mu"
    using assms by (auto simp: wf_zipT shape_zipT)
  moreover have "shape ?mu = shape (Tn s xs0)"
    using assms by simp
  ultimately have "binop (+) ?mu (map_tensor (\<lambda>e. sigma self * e) (zeros_like (Tn s xs0) :: real tensor))
      = Inr ?mu"
    using assms(1) by (intro add_zero_noise)
  then have "sample_xt self (Tn s xs0) (Tn s xs1) (Ten (Tn [] (map Sc ts))) (zeros_like (Tn s xs0))
      = Inr ?mu"
    unfolding sample_xt_unfold mu by (simp add: bindE_def)
  then show ?thesis
    using mu by (simp add: compute_sigma_t_def sample_xt_unfold)
qed

theorem sample_xt_mean_plus_noise_witness:
  "compute_sigma_t \<lparr>in_dim = 2, encoder_type = ''fixed'', learning_rate = 1/1000,
       weight_decay = 1/10000, antithetic_time_sampling = True, pretrain_encoder = False,
       pretraining_encoder_epochs = 0, sigma = 1/10, covariate_specific_theta = False,
       conditioning_covariate = ''cell_type''\<rparr> (Ten (Tn [] [Sc 0, Sc (1/2)])) = Num (1/10)
   \<and> sample_xt \<lparr>in_dim = 2, encoder_type = ''fixed'', learning_rate = 1/1000,
       weight_decay = 1/10000, antithetic_time_sampling = True, pretrain_encoder = False,
       pretraining_encoder_epochs = 0, sigma = 1/10, covariate_specific_theta = False,
       conditioning_covariate = ''cell_type''\<rparr>
       (Tn [2] [Tn [] [Sc 1, Sc 2], Tn [] [Sc 3, Sc 4]])
       (Tn [2] [Tn [] [Sc 10, Sc 20], Tn [] [Sc 30, Sc 40]])
       (Ten (Tn [] [Sc 0, Sc (1/2)]))
       (zeros_like (Tn [2] [Tn [] [Sc (1::real), Sc 2], Tn [] [Sc 3, Sc 4]]))
     = Inr (Tn [2] [Tn [] [Sc 1, Sc 2], Tn [] [Sc (33/2), Sc 22]])"
  using sample_xt_mean_plus_noise
    [where s = "[2]" and ?xs0.0 = "[Tn [] [Sc 1, Sc 2], Tn [] [Sc 3, Sc 4]]"
       and ?xs1.0 = "[Tn [] [Sc 10, Sc 20], Tn [] [Sc 30, Sc 40]]" and ts = "[0, 1/2]"
       and self = "\<lparr>in_dim = 2, encoder_type = ''fixed'', learning_rate = 1/1000,
          weight_decay = 1/10000, antithetic_time_sampling = True, pretrain_encoder = False,
          pretraining_encoder_epochs = 0, sigma = 1/10, covariate_specific_theta = False,
          conditioning_covariate = ''cell_type''\<rparr>"
       and t = "Ten (Tn [] [Sc 0, Sc (1/2)])"
       and ?x0.0 = "Sc 0" and ?x1.0 = "Sc 0" and epsilon = "Sc 0"]
    compute_mu_t_batch
    [of "[2]" "[Tn [] [Sc (1::real), Sc 2], Tn [] [Sc 3, Sc 4]]"
        "[Tn [] [Sc 10, Sc 20], Tn [] [Sc 30, Sc 40]]" "[0, 1/2]"]
  by (simp add: upt_rec)

text \<open>
  C9. When the optimal-transport sampler returns batches of the shape of its inputs and
  a time tensor \<open>t\<close> is supplied whose length differs from the batch size of \<open>x0\<close>,
  \<open>sample_location_and_conditional_flow\<close> raises AssertionError and returns no
  \<open>xt\<close> or \<open>ut\<close>; when the length matches, it does not raise AssertionError.
\<close>

theorem time_length_mismatch_asserts:
  assumes "shape (fst (sample_plan c x0 x1)) = shape x0"
    and "shape x0 = b # s" and "shape t = n # s'"
  shows "(n \<noteq> b \<longrightarrow>
            sample_location_and_conditional_flow c self x0 x1 (Some t) = Inl AssertionError)
       \<and> (n = b \<longrightarrow>
            sample_location_and_conditional_flow c self x0 x1 (Some t) \<noteq> Inl AssertionError)"
proof -
  obtain y0 y1 where plan: "sample_plan c x0 x1 = (y0, y1)"
    by (cases "sample_plan c x0 x1")
  have b: "shape0 y0 = Inr b"
    using assms(1,2) plan by (simp add: shape0_def)
  have n: "len_tensor t = Inr n"
    using assms(3) by (cases t) (simp_all add: len_tensor_def)
  show ?thesis
    using plan b n
    by (auto simp: sample_location_and_conditional_flow_def bindE_def Let_def
        split: sum.splits dest: sample_xt_error compute_conditional_flow_error)
qed

theorem time_length_mismatch_asserts_witness:
  "sample_location_and_conditional_flow
     \<lparr>sample_plan = (\<lambda>a b. (a, b)), randn_like = zeros_like,
      rand = (\<lambda>n. Tn [] (replicate n (Sc (1/2)))), uniform = (\<lambda>lo hi. lo)\<rparr>
     \<lparr>in_dim = 1, encoder_type = ''fixed'', learning_rate = 1/1000,
      weight_decay = 1/10000, antithetic_time_sampling = True, pretrain_encoder = False,
      pretraining_encoder_epochs = 0, sigma = 1/10, covariate_specific_theta = False,
      conditioning_covariate = ''cell_type''\<rparr>
     (Tn [1] [Tn [] [Sc 0], Tn [] [Sc 1]])
     (Tn [1] [Tn [] [Sc 2], Tn [] [Sc 3]])
     (Some (Tn [] [Sc 0, Sc (1/2), Sc 1]))
   = Inl AssertionError"
  using time_length_mismatch_asserts
    [where c = "\<lparr>sample_plan = (\<lambda>a b. (a, b)), randn_like = zeros_like,
        rand = (\<lambda>n. Tn [] (replicate n (Sc (1/2)))), uniform = (\<lambda>lo hi. lo)\<rparr>"
       and ?x0.0 = "Tn [1] [Tn [] [Sc 0], Tn [] [Sc 1]]"
       and ?x1.0 = "Tn [1] [Tn [] [Sc 2], Tn [] [Sc 3]]"
       and t = "Tn [] [Sc 0, Sc (1/2), Sc 1]" and b = 2 and s = "[1]" and n = 3 and s' = "[]"]
  by simp

text \<open>
  C4. With antithetic sampling, batch size 49 and the offset \<open>0.0\<close>, a value
  \<open>np.random.uniform(0, 1 / 49)\<close> can draw, \<open>_sample_times\<close> returns 50 times and not 49:
  \<open>1.0 / 49\<close> rounds below \<open>1/49\<close>, so \<open>(1.0 - 0.0) / (1.0 / 49)\<close> rounds above 49. With
  these times the assertion of \<open>sample_location_and_conditional_flow\<close> on a batch of 49
  samples fails, as it does in \<open>_step\<close>.
\<close>

theorem sample_times_extra_time:
  "bindE (sample_times
       \<lparr>sample_plan = (\<lambda>a b. (a, b)), randn_like = zeros_like,
        rand = (\<lambda>n. Tn [] (replicate n (Sc (1/2)))), uniform = (\<lambda>lo hi. lo)\<rparr>
       \<lparr>in_dim = 1, encoder_type = ''fixed'', learning_rate = 1/1000,
        weight_decay = 1/10000, antithetic_time_sampling = True, pretrain_encoder = False,
        pretraining_encoder_epochs = 0, sigma = 1/10, covariate_specific_theta = False,
        conditioning_covariate = ''cell_type''\<rparr> 49) len_tensor
   = Inr 50
   \<and> bindE (sample_times
       \<lparr>sample_plan = (\<lambda>a b. (a, b)), randn_like = zeros_like,
        rand = (\<lambda>n. Tn [] (replicate n (Sc (1/2)))), uniform = (\<lambda>lo hi. lo)\<rparr>
       \<lparr>in_dim = 1, encoder_type = ''fixed'', learning_rate = 1/1000,
        weight_decay = 1/10000, antithetic_time_sampling = True, pretrain_encoder = False,
        pretraining_encoder_epochs = 0, sigma = 1/10, covariate_specific_theta = False,
        conditioning_covariate = ''cell_type''\<rparr> 49)
       (\<lambda>t. sample_location_and_conditional_flow
          \<lparr>sample_plan = (\<lambda>a b. (a, b)), randn_like = zeros_like,
           rand = (\<lambda>n. Tn [] (replicate n (Sc (1/2)))), uniform = (\<lambda>lo hi. lo)\<rparr>
          \<lparr>in_dim = 1, encoder_type = ''fixed'', learning_rate = 1/1000,
           weight_decay = 1/10000, antithetic_time_sampling = True, pretrain_encoder = False,
           pretraining_encoder_epochs = 0, sigma = 1/10, covariate_specific_theta = False,
           conditioning_covariate = ''cell_type''\<rparr>
          (Tn [1] (replicate 49 (Tn [] [Sc 0]))) (Tn [1] (replicate 49 (Tn [] [Sc 1])))
          (Some t))
   = Inl AssertionError"
proof -
  have step: "fl64 (1 / 49) = 5882252574524729 / 288230376151711744"
    by (simp add: fl64_def round_to_def ilog2.simps round_half_even_def Let_def)
  have one: "fl64 1 = 1"
    by (simp add: fl64_def round_to_def ilog2.simps round_half_even_def Let_def)
  have quot: "fl64 (288230376151711744 / 5882252574524729)
      = 6896136929411073 / 140737488355328"
    by (simp add: fl64_def round_to_def ilog2.simps round_half_even_def Let_def)
  have count: "nat \<lceil>6896136929411073 / 140737488355328 :: real\<rceil> = 50"
    by simp
  show ?thesis
    by (simp add: sample_times_def py_div_def arange_def bindE_def step one quot count
        len_tensor_def sample_location_and_conditional_flow_def shape0_def)
qed

text \<open>
  C10. After \<open>RNAseqLoader\<close> is constructed, for every covariate key the mapping
  \<open>id2cov[cov]\<close> pairs the sorted distinct values of the column with \<open>0, ..., n - 1\<close>, a
  bijection from the values found onto that range; \<open>Y_cov[cov]\<close> holds the index of each
  cell's value, every one below \<open>n\<close>; and every item \<open>__getitem__\<close> returns carries
  one index for every covariate of \<open>Y_cov\<close>, this key among them, each below the size of
  that covariate's mapping.
\<close>

theorem id2cov_bijection:
  assumes "RNAseqLoader_init nt bin (Some keys) mods xs adata_obs = Inr L"
    and "k \<in> set keys" and "map_of adata_obs k = Some cov"
  shows "map_of (id2cov L) k = Some (zip (sort (remdups cov)) [0..<card (set cov)])
       \<and> bij_betw (\<lambda>c. the (map_of (the (map_of (id2cov L) k)) c)) (set cov) {0..<card (set cov)}
       \<and> map_of (Y_cov L) k = Some (map (\<lambda>c. the (map_of (the (map_of (id2cov L) k)) c)) cov)
       \<and> (\<forall>v \<in> set (the (map_of (Y_cov L) k)). v < card (set cov))
       \<and> (\<forall>it. getitem nrm L i = Inr it \<longrightarrow>
            map fst (item_y it) = map fst (Y_cov L)
          \<and> k \<in> set (map fst (item_y it))
          \<and> (\<forall>(k', v) \<in> set (item_y it).
               \<exists>m. map_of (id2cov L) k' = Some m \<and> v < length m))"
proof -
  have ok: "cov_tables_ok adata_obs (id2cov L) (Y_cov L)"
    and dom: "map_of (id2cov L) k \<noteq> None"
    using init_tables [OF assms(1)] assms(2) by auto
  from dom ok obtain ys where "map_of (Y_cov L) k = Some ys"
    unfolding cov_tables_ok_def by blast
  then have tabs: "map_of (id2cov L) k = Some (cat_dict cov)" "map_of (Y_cov L) k = Some (cat_ids cov)"
    using ok assms(3) unfolding cov_tables_ok_def by fastforce+
  have key: "k \<in> set (map fst (Y_cov L))"
    using tabs(2) by (auto dest: map_of_SomeD intro: rev_image_eqI)
  have item: "\<forall>it. getitem nrm L i = Inr it \<longrightarrow>
        map fst (item_y it) = map fst (Y_cov L)
      \<and> k \<in> set (map fst (item_y it))
      \<and> (\<forall>(k', v) \<in> set (item_y it). \<exists>m. map_of (id2cov L) k' = Some m \<and> v < length m)"
  proof (intro allI impI conjI)
    fix it assume g: "getitem nrm L i = Inr it"
    show keys: "map fst (item_y it) = map fst (Y_cov L)"
      using g by (rule getitem_y_keys)
    show "k \<in> set (map fst (item_y it))"
      unfolding keys by (rule key)
    show "\<forall>(k', v) \<in> set (item_y it). \<exists>m. map_of (id2cov L) k' = Some m \<and> v < length m"
      using getitem_y_range [OF ok g] by blast
  qed
  have main: "map_of (id2cov L) k = Some (zip (sort (remdups cov)) [0..<card (set cov)])
       \<and> bij_betw (\<lambda>c. the (map_of (the (map_of (id2cov L) k)) c)) (set cov) {0..<card (set cov)}
       \<and> map_of (Y_cov L) k = Some (map (\<lambda>c. the (map_of (the (map_of (id2cov L) k)) c)) cov)
       \<and> (\<forall>v \<in> set (the (map_of (Y_cov L) k)). v < card (set cov))"
    using tabs cat_dict_bij [of cov] cat_ids_range [of _ cov]
    by (simp add: cat_dict_def [symmetric] cat_ids_def [symmetric])
  show ?thesis
    using main item by blast
qed



theorem id2cov_bijection_witness:
  "(RNAseqLoader_init ''proportions'' False (Some [''cell_type'']) [''rna'']
       [(''rna'', Tn [2] [Tn [] [Sc 1, Sc 0], Tn [] [Sc 2, Sc 2], Tn [] [Sc 0, Sc 4]])]
       [(''cell_type'', [5, 3, 5 :: nat])]
     = Inr \<lparr>normalization_type = ''proportions'', is_binarized = False,
        covariate_keys = [''cell_type''], modality_list = [''rna''],
        X_data = [(''rna'', Tn [2] [Tn [] [Sc 1, Sc 0], Tn [] [Sc 2, Sc 2], Tn [] [Sc 0, Sc 4]])],
        id2cov = [(''cell_type'', [(3, 0), (5 :: nat, 1)])],
        Y_cov = [(''cell_type'', [1, 0, 1])]\<rparr>)
   \<and> (getitem (\<lambda>x total kind. x)
      \<lparr>normalization_type = ''proportions'', is_binarized = False,
        covariate_keys = [''cell_type''], modality_list = [''rna''],
        X_data = [(''rna'', Tn [2] [Tn [] [Sc 1, Sc 0], Tn [] [Sc 2, Sc 2], Tn [] [Sc 0, Sc 4]])],
        id2cov = [(''cell_type'', [(3, 0), (5 :: nat, 1)])],
        Y_cov = [(''cell_type'', [1, 0, 1])]\<rparr> 1
     = Inr \<lparr>item_X = [(''rna'', Tn [] [Sc 2, Sc 2])],
            item_X_norm = [(''rna'', Tn [] [Sc 2, Sc 2])],
            item_y = [(''cell_type'', 0)]\<rparr>)
   \<and> map_of (id2cov \<lparr>normalization_type = ''proportions'', is_binarized = False,
        covariate_keys = [''cell_type''], modality_list = [''rna''],
        X_data = [(''rna'', Tn [2] [Tn [] [Sc 1, Sc 0], Tn [] [Sc 2, Sc 2], Tn [] [Sc 0, Sc 4]])],
        id2cov = [(''cell_type'', [(3, 0), (5 :: nat, 1)])],
        Y_cov = [(''cell_type'', [1, 0, 1])]\<rparr>) ''cell_type''
       = Some (zip (sort (remdups [5, 3, 5])) [0..<card (set [5, 3, 5 :: nat])])
   \<and> bij_betw (\<lambda>c. the (map_of (the (map_of (id2cov \<lparr>normalization_type = ''proportions'', is_binarized = False,
        covariate_keys = [''cell_type''], modality_list = [''rna''],
        X_data = [(''rna'', Tn [2] [Tn [] [Sc 1, Sc 0], Tn [] [Sc 2, Sc 2], Tn [] [Sc 0, Sc 4]])],
        id2cov = [(''cell_type'', [(3, 0), (5 :: nat, 1)])],
        Y_cov = [(''cell_type'', [1, 0, 1])]\<rparr>) ''cell_type'')) c))
        (set [5, 3, 5]) {0..<card (set [5, 3, 5 :: nat])}
   \<and> map_of (Y_cov \<lparr>normalization_type = ''proportions'', is_binarized = False,
        covariate_keys = [''cell_type''], modality_list = [''rna''],
        X_data = [(''rna'', Tn [2] [Tn [] [Sc 1, Sc 0], Tn [] [Sc 2, Sc 2], Tn [] [Sc 0, Sc 4]])],
        id2cov = [(''cell_type'', [(3, 0), (5 :: nat, 1)])],
        Y_cov = [(''cell_type'', [1, 0, 1])]\<rparr>) ''cell_type''
       = Some (map (\<lambda>c. the (map_of (the (map_of (id2cov \<lparr>normalization_type = ''proportions'', is_binarized = False,
        covariate_keys = [''cell_type''], modality_list = [''rna''],
        X_data = [(''rna'', Tn [2] [Tn [] [Sc 1, Sc 0], Tn [] [Sc 2, Sc 2], Tn [] [Sc 0, Sc 4]])],
        id2cov = [(''cell_type'', [(3, 0), (5 :: nat, 1)])],
        Y_cov = [(''cell_type'', [1, 0, 1])]\<rparr>) ''cell_type'')) c)) [5, 3, 5])
   \<and> map fst (item_y \<lparr>item_X = [(''rna'', Tn [] [Sc 2, Sc 2])],
            item_X_norm = [(''rna'', Tn [] [Sc 2, Sc 2])],
            item_y = [(''cell_type'', 0)]\<rparr>)
       = map fst (Y_cov \<lparr>normalization_type = ''proportions'', is_binarized = False,
        covariate_keys = [''cell_type''], modality_list = [''rna''],
        X_data = [(''rna'', Tn [2] [Tn [] [Sc 1, Sc 0], Tn [] [Sc 2, Sc 2], Tn [] [Sc 0, Sc 4]])],
        id2cov = [(''cell_type'', [(3, 0), (5 :: nat, 1)])],
        Y_cov = [(''cell_type'', [1, 0, 1])]\<rparr>)"
proof -
  have init: "RNAseqLoader_init ''proportions'' False (Some [''cell_type'']) [''rna'']
       [(''rna'', Tn [2] [Tn [] [Sc 1, Sc 0], Tn [] [Sc 2, Sc 2], Tn [] [Sc 0, Sc 4]])]
       [(''cell_type'', [5, 3, 5 :: nat])]
     = Inr \<lparr>normalization_type = ''proportions'', is_binarized = False,
        covariate_keys = [''cell_type''], modality_list = [''rna''],
        X_data = [(''rna'', Tn [2] [Tn [] [Sc 1, Sc 0], Tn [] [Sc 2, Sc 2], Tn [] [Sc 0, Sc 4]])],
        id2cov = [(''cell_type'', [(3, 0), (5 :: nat, 1)])],
        Y_cov = [(''cell_type'', [1, 0, 1])]\<rparr>"
    by code_simp
  have item: "getitem (\<lambda>x total kind. x)
      \<lparr>normalization_type = ''proportions'', is_binarized = False,
        covariate_keys = [''cell_type''], modality_list = [''rna''],
        X_data = [(''rna'', Tn [2] [Tn [] [Sc 1, Sc 0], Tn [] [Sc 2, Sc 2], Tn [] [Sc 0, Sc 4]])],
        id2cov = [(''cell_type'', [(3, 0), (5 :: nat, 1)])],
        Y_cov = [(''cell_type'', [1, 0, 1])]\<rparr> 1
     = Inr \<lparr>item_X = [(''rna'', Tn [] [Sc 2, Sc 2])],
            item_X_norm = [(''rna'', Tn [] [Sc 2, Sc 2])],
            item_y = [(''cell_type'', 0)]\<rparr>"
    by code_simp
  have key: "''cell_type'' \<in> set [''cell_type'']"
    by simp
  have col: "map_of [(''cell_type'', [5, 3, 5 :: nat])] ''cell_type'' = Some [5, 3, 5]"
    by simp
  show ?thesis
    using init item id2cov_bijection [OF init key col, of "\<lambda>x total kind. x" 1]
    by blast
qed



text \<open>
  C6. In a training run from the initial state with pretraining enabled, the step at the
  threshold epoch leaves every encoder parameter (and, for \<open>learnt_autoencoder\<close>, every
  decoder parameter) with \<open>requires_grad = False\<close> and the optimizer at the configured
  learning rate and weight decay; whatever steps follow, flags and optimizer stay as they
  are, and the phase stays \<open>Joint\<close>.
\<close>

theorem freeze_at_threshold:
  assumes "steps c n self (initial_state self n_enc n_dec) st"
    and "pretrain_encoder self"
    and "step c n self (st\<lparr>current_epoch := pretraining_encoder_epochs self\<rparr>) b = Inr (loss, st1)"
    and "steps c n self st1 st2"
  shows "(\<forall>g \<in> set (x0_from_x_requires_grad st1). \<not> g)
       \<and> length (x0_from_x_requires_grad st1)
           = (if encoder_type self \<in> set [''learnt_encoder'', ''learnt_autoencoder'']
              then n_enc else 0)
       \<and> (encoder_type self = ''learnt_autoencoder'' \<longrightarrow>
            (\<forall>g \<in> set (x_from_x0_requires_grad st1). \<not> g)
          \<and> length (x_from_x0_requires_grad st1) = n_dec)
       \<and> lr st1 = learning_rate self \<and> opt_weight_decay st1 = weight_decay self
       \<and> x0_from_x_requires_grad st2 = x0_from_x_requires_grad st1
       \<and> x_from_x0_requires_grad st2 = x_from_x0_requires_grad st1
       \<and> lr st2 = lr st1 \<and> opt_weight_decay st2 = opt_weight_decay st1
       \<and> phase_of self st1 = Joint \<and> phase_of self st2 = Joint"
proof -
  let ?p = "pretraining_encoder_epochs self"
  have st1: "st1 = freeze_step self (st\<lparr>current_epoch := ?p\<rparr>)"
    using assms(3) by (rule step_state)
  note inv = steps_from_initial [OF assms(1)]
  have ep1: "current_epoch st1 = ?p"
    using st1 by (simp add: freeze_step_def)
  have fr: "frozen self st1"
  proof (cases "encoder_type self \<in> set [''learnt_encoder'', ''learnt_autoencoder'']")
    case True
    then show ?thesis
      using st1 assms(2) by (auto simp: frozen_def freeze_step_def)
  next
    case False
    then have "x0_from_x_requires_grad st = []" "x_from_x0_requires_grad st = []"
      using inv by auto
    then show ?thesis
      using st1 False inv by (auto simp: frozen_def freeze_step_def)
  qed
  have len: "length (x0_from_x_requires_grad st1) = length (x0_from_x_requires_grad st)"
    "length (x_from_x0_requires_grad st1) = length (x_from_x0_requires_grad st)"
    using st1 by (auto simp: freeze_step_def)
  have later: "x0_from_x_requires_grad st2 = x0_from_x_requires_grad st1
      \<and> x_from_x0_requires_grad st2 = x_from_x0_requires_grad st1
      \<and> lr st2 = lr st1 \<and> opt_weight_decay st2 = opt_weight_decay st1"
    using steps_frozen [OF assms(4) fr] by simp
  have "?p \<le> current_epoch st2"
    using steps_epoch [OF assms(4)] ep1 by simp
  then have ph: "phase_of self st1 = Joint \<and> phase_of self st2 = Joint"
    using ep1 by (simp add: phase_of_def)
  show ?thesis
    using fr len inv later ph by (auto simp: frozen_def)
qed

theorem freeze_at_threshold_witness:
  "step \<lparr>sample_plan = (\<lambda>a b. (a, b)), randn_like = zeros_like,
        rand = (\<lambda>k. Tn [] (replicate k (Sc (1/2)))), uniform = (\<lambda>lo hi. lo)\<rparr>
     \<lparr>denoising_model = (\<lambda>x_t t l y. x_t),
        feature_embeddings = [(''cell_type'', \<lambda>ys. Tn [1] (map (\<lambda>y. Tn [] [Sc (real y)]) ys))],
        scaler_scale = (\<lambda>x r. x), x0_from_x = (\<lambda>x. x), x_from_x0 = (\<lambda>x. x),
        cell_decoder = (\<lambda>z sf. z), theta = Tn [] [Sc 0, Sc 0],
        nb_log_prob = (\<lambda>mu th x. x)\<rparr>
     \<lparr>in_dim = 1, encoder_type = ''learnt_autoencoder'', learning_rate = 1/100,
        weight_decay = 1/1000, antithetic_time_sampling = False, pretrain_encoder = True,
        pretraining_encoder_epochs = 1, sigma = 1/10, covariate_specific_theta = False,
        conditioning_covariate = ''cell_type''\<rparr>
     \<lparr>current_epoch = 0, x0_from_x_requires_grad = [True, True],
        x_from_x0_requires_grad = [True, True], lr = 1/1000, opt_weight_decay = 0\<rparr>
     \<lparr>batch_X = Tn [1] [Tn [] [Sc 2]], batch_X_norm = Tn [1] [Tn [] [Sc 1]],
        batch_y = [(''cell_type'', [0])]\<rparr>
   = Inr (- 2, \<lparr>current_epoch = 0, x0_from_x_requires_grad = [True, True],
        x_from_x0_requires_grad = [True, True], lr = 1/1000, opt_weight_decay = 0\<rparr>)
   \<and> phase_of \<lparr>in_dim = 1, encoder_type = ''learnt_autoencoder'', learning_rate = 1/100,
        weight_decay = 1/1000, antithetic_time_sampling = False, pretrain_encoder = True,
        pretraining_encoder_epochs = 1, sigma = 1/10, covariate_specific_theta = False,
        conditioning_covariate = ''cell_type''\<rparr>
       \<lparr>current_epoch = 0, x0_from_x_requires_grad = [True, True],
        x_from_x0_requires_grad = [True, True], lr = 1/1000, opt_weight_decay = 0\<rparr> = Pretraining
   \<and> step \<lparr>sample_plan = (\<lambda>a b. (a, b)), randn_like = zeros_like,
        rand = (\<lambda>k. Tn [] (replicate k (Sc (1/2)))), uniform = (\<lambda>lo hi. lo)\<rparr>
     \<lparr>denoising_model = (\<lambda>x_t t l y. x_t),
        feature_embeddings = [(''cell_type'', \<lambda>ys. Tn [1] (map (\<lambda>y. Tn [] [Sc (real y)]) ys))],
        scaler_scale = (\<lambda>x r. x), x0_from_x = (\<lambda>x. x), x_from_x0 = (\<lambda>x. x),
        cell_decoder = (\<lambda>z sf. z), theta = Tn [] [Sc 0, Sc 0],
        nb_log_prob = (\<lambda>mu th x. x)\<rparr>
     \<lparr>in_dim = 1, encoder_type = ''learnt_autoencoder'', learning_rate = 1/100,
        weight_decay = 1/1000, antithetic_time_sampling = False, pretrain_encoder = True,
        pretraining_encoder_epochs = 1, sigma = 1/10, covariate_specific_theta = False,
        conditioning_covariate = ''cell_type''\<rparr>
     \<lparr>current_epoch = 1, x0_from_x_requires_grad = [True, True],
        x_from_x0_requires_grad = [True, True], lr = 1/1000, opt_weight_decay = 0\<rparr>
     \<lparr>batch_X = Tn [1] [Tn [] [Sc 2]], batch_X_norm = Tn [1] [Tn [] [Sc 1]],
        batch_y = [(''cell_type'', [0])]\<rparr>
   = Inr (1/4, \<lparr>current_epoch = 1, x0_from_x_requires_grad = [False, False],
        x_from_x0_requires_grad = [False, False], lr = 1/100, opt_weight_decay = 1/1000\<rparr>)
   \<and> step \<lparr>sample_plan = (\<lambda>a b. (a, b)), randn_like = zeros_like,
        rand = (\<lambda>k. Tn [] (replicate k (Sc (1/2)))), uniform = (\<lambda>lo hi. lo)\<rparr>
     \<lparr>denoising_model = (\<lambda>x_t t l y. x_t),
        feature_embeddings = [(''cell_type'', \<lambda>ys. Tn [1] (map (\<lambda>y. Tn [] [Sc (real y)]) ys))],
        scaler_scale = (\<lambda>x r. x), x0_from_x = (\<lambda>x. x), x_from_x0 = (\<lambda>x. x),
        cell_decoder = (\<lambda>z sf. z), theta = Tn [] [Sc 0, Sc 0],
        nb_log_prob = (\<lambda>mu th x. x)\<rparr>
     \<lparr>in_dim = 1, encoder_type = ''learnt_autoencoder'', learning_rate = 1/100,
        weight_decay = 1/1000, antithetic_time_sampling = False, pretrain_encoder = True,
        pretraining_encoder_epochs = 1, sigma = 1/10, covariate_specific_theta = False,
        conditioning_covariate = ''cell_type''\<rparr>
     \<lparr>current_epoch = 2, x0_from_x_requires_grad = [False, False],
        x_from_x0_requires_grad = [False, False], lr = 1/100, opt_weight_decay = 1/1000\<rparr>
     \<lparr>batch_X = Tn [1] [Tn [] [Sc 2]], batch_X_norm = Tn [1] [Tn [] [Sc 1]],
        batch_y = [(''cell_type'', [0])]\<rparr>
   = Inr (1/4, \<lparr>current_epoch = 2, x0_from_x_requires_grad = [False, False],
        x_from_x0_requires_grad = [False, False], lr = 1/100, opt_weight_decay = 1/1000\<rparr>)
   \<and> x0_from_x_requires_grad \<lparr>current_epoch = 2, x0_from_x_requires_grad = [False, False],
        x_from_x0_requires_grad = [False, False], lr = 1/100, opt_weight_decay = 1/1000\<rparr>
     = x0_from_x_requires_grad \<lparr>current_epoch = 1, x0_from_x_requires_grad = [False, False],
        x_from_x0_requires_grad = [False, False], lr = 1/100, opt_weight_decay = 1/1000\<rparr>
   \<and> phase_of \<lparr>in_dim = 1, encoder_type = ''learnt_autoencoder'', learning_rate = 1/100,
        weight_decay = 1/1000, antithetic_time_sampling = False, pretrain_encoder = True,
        pretraining_encoder_epochs = 1, sigma = 1/10, covariate_specific_theta = False,
        conditioning_covariate = ''cell_type''\<rparr>
       \<lparr>current_epoch = 2, x0_from_x_requires_grad = [False, False],
        x_from_x0_requires_grad = [False, False], lr = 1/100, opt_weight_decay = 1/1000\<rparr> = Joint"
proof -
  let ?c = "\<lparr>sample_plan = (\<lambda>a b. (a, b)), randn_like = zeros_like,
        rand = (\<lambda>k. Tn [] (replicate k (Sc (1/2)))), uniform = (\<lambda>lo hi. lo)\<rparr>"
  let ?n = "\<lparr>denoising_model = (\<lambda>x_t t l y. x_t),
        feature_embeddings = [(''cell_type'', \<lambda>ys. Tn [1] (map (\<lambda>y. Tn [] [Sc (real y)]) ys))],
        scaler_scale = (\<lambda>x r. x), x0_from_x = (\<lambda>x. x), x_from_x0 = (\<lambda>x. x),
        cell_decoder = (\<lambda>z sf. z), theta = Tn [] [Sc 0, Sc 0],
        nb_log_prob = (\<lambda>mu th x. x)\<rparr>"
  let ?self = "\<lparr>in_dim = 1, encoder_type = ''learnt_autoencoder'', learning_rate = 1/100,
        weight_decay = 1/1000, antithetic_time_sampling = False, pretrain_encoder = True,
        pretraining_encoder_epochs = 1, sigma = 1/10, covariate_specific_theta = False,
        conditioning_covariate = ''cell_type''\<rparr>"
  let ?b = "\<lparr>batch_X = Tn [1] [Tn [] [Sc 2]], batch_X_norm = Tn [1] [Tn [] [Sc 1]],
        batch_y = [(''cell_type'', [0])]\<rparr>"
  let ?st0 = "\<lparr>current_epoch = 0, x0_from_x_requires_grad = [True, True],
        x_from_x0_requires_grad = [True, True], lr = 1/1000, opt_weight_decay = 0\<rparr>"
  let ?st1 = "\<lparr>current_epoch = 1, x0_from_x_requires_grad = [False, False],
        x_from_x0_requires_grad = [False, False], lr = 1/100, opt_weight_decay = 1/1000\<rparr>"
  let ?st2 = "\<lparr>current_epoch = 2, x0_from_x_requires_grad = [False, False],
        x_from_x0_requires_grad = [False, False], lr = 1/100, opt_weight_decay = 1/1000\<rparr>"
  have init: "initial_state ?self 2 2 = ?st0"
    by (simp add: initial_state_def configure_optimizers_def numeral_2_eq_2)
  have pre_step: "step ?c ?n ?self ?st0 ?b = Inr (- 2, ?st0)"
    by (simp add: step_def bindE_def dict_get_def sum_dim1_def sum_tensors_def
        unsqueeze1_def freeze_step_def shape0_def sample_times_def sample_noise_like_def
        zeros_like_def sample_location_and_conditional_flow_def len_tensor_def sample_xt_unfold
        compute_mu_t_def pad_t_like_x_def val_op_def num_minus_def binop_def
        broadcast_shapes_def compute_conditional_flow_def criterion_def mean_def
        power2_eq_square numeral_2_eq_2 log_probs_x_z0_def decode_def softmax_dim1_def
        softmax_slice_def)
  have at_step: "step ?c ?n ?self (?st0\<lparr>current_epoch := 1\<rparr>) ?b = Inr (1/4, ?st1)"
    by (simp add: step_def bindE_def dict_get_def sum_dim1_def sum_tensors_def
        unsqueeze1_def freeze_step_def shape0_def sample_times_def sample_noise_like_def
        zeros_like_def sample_location_and_conditional_flow_def len_tensor_def sample_xt_unfold
        compute_mu_t_def pad_t_like_x_def val_op_def num_minus_def binop_def
        broadcast_shapes_def compute_conditional_flow_def criterion_def mean_def
        power2_eq_square numeral_2_eq_2 log_probs_x_z0_def decode_def softmax_dim1_def
        softmax_slice_def)
  have later_step: "step ?c ?n ?self (?st1\<lparr>current_epoch := 2\<rparr>) ?b = Inr (1/4, ?st2)"
    by (simp add: step_def bindE_def dict_get_def sum_dim1_def sum_tensors_def
        unsqueeze1_def freeze_step_def shape0_def sample_times_def sample_noise_like_def
        zeros_like_def sample_location_and_conditional_flow_def len_tensor_def sample_xt_unfold
        compute_mu_t_def pad_t_like_x_def val_op_def num_minus_def binop_def
        broadcast_shapes_def compute_conditional_flow_def criterion_def mean_def
        power2_eq_square numeral_2_eq_2 log_probs_x_z0_def decode_def softmax_dim1_def
        softmax_slice_def)
  have "steps ?c ?n ?self ?st0 ?st0"
    by (rule steps_refl)
  moreover have "current_epoch ?st0 \<le> 0"
    by simp
  moreover have "step ?c ?n ?self (?st0\<lparr>current_epoch := 0\<rparr>) ?b = Inr (- 2, ?st0)"
    using pre_step by simp
  ultimately have "steps ?c ?n ?self ?st0 ?st0"
    by (rule steps_next)
  then have start: "steps ?c ?n ?self (initial_state ?self 2 2) ?st0"
    unfolding init .
  have at: "step ?c ?n ?self (?st0\<lparr>current_epoch := pretraining_encoder_epochs ?self\<rparr>) ?b
      = Inr (1/4, ?st1)"
    using at_step by simp
  have "steps ?c ?n ?self ?st1 ?st1"
    by (rule steps_refl)
  moreover have "current_epoch ?st1 \<le> 2"
    by simp
  ultimately have later: "steps ?c ?n ?self ?st1 ?st2"
    using later_step by (rule steps_next)
  have pre: "pretrain_encoder ?self"
    by simp
  have ph0: "phase_of ?self ?st0 = Pretraining"
    by (simp add: phase_of_def)
  show ?thesis
    using freeze_at_threshold [OF start pre at later] pre_step at_step later_step ph0
    by simp
qed

text \<open>
  C8. Constructing \<open>FM\<close> with \<open>covariate_specific_theta\<close> enabled does not create a
  dispersion table: with three categories and two genes, the call of
  \<open>torch.nn.Parameter\<close> raises TypeError, its second positional argument and its keyword
  both binding \<open>requires_grad\<close>; without the flag the parameter is the per-gene vector.
\<close>

theorem init_theta_covariate_specific_raises:
  "init_theta (\<lambda>k. Tn [] (replicate k (Sc 0))) [(''cell_type'', 3)]
     \<lparr>in_dim = 2, encoder_type = ''fixed'', learning_rate = 1/1000,
      weight_decay = 1/10000, antithetic_time_sampling = True, pretrain_encoder = False,
      pretraining_encoder_epochs = 0, sigma = 1/10, covariate_specific_theta = True,
      conditioning_covariate = ''cell_type''\<rparr>
   = Inl TypeError
   \<and> init_theta (\<lambda>k. Tn [] (replicate k (Sc 0))) [(''cell_type'', 3)]
     \<lparr>in_dim = 2, encoder_type = ''fixed'', learning_rate = 1/1000,
      weight_decay = 1/10000, antithetic_time_sampling = True, pretrain_encoder = False,
      pretraining_encoder_epochs = 0, sigma = 1/10, covariate_specific_theta = False,
      conditioning_covariate = ''cell_type''\<rparr>
   = Inr (Tn [] [Sc 0, Sc 0])"
  by (simp add: init_theta_def Parameter_def bind_args_def bindE_def dict_get_def
      numeral_2_eq_2)

end
